theory Spec2Isabelle
  imports Main "HOL-Library.List_Lexorder" "HOL-Library.Char_ord"
begin

section \<open>The table comparator of \<^verbatim>\<open>compare_table_contents.py\<close>\<close>

text \<open>
  The development embeds the query composer (\<^verbatim>\<open>QueryBuilder\<close>), the comparator
  (\<^verbatim>\<open>TableComparator\<close>), \<^verbatim>\<open>execute_comparison\<close> and the entry point \<^verbatim>\<open>main\<close> of
  \<^verbatim>\<open>src/3_bigquery_utils/compare_table_contents.py\<close>.

  Conventions of the embedding:
  \<^item> A Python \<^verbatim>\<open>str\<close> is a \<open>string\<close>; a \<open>char\<close> stands for the code point of the same
    number, so the strings covered are those over the code points 0 to 255.
  \<^item> \<^verbatim>\<open>Optional[str]\<close> is \<open>string option\<close>. Python's truth test \<^verbatim>\<open>if x:\<close> on such a value
    is \<open>truthy\<close>: neither \<^verbatim>\<open>None\<close> nor the empty string passes it.
  \<^item> An exception is the left injection of a sum; \<^verbatim>\<open>sys.exit(1)\<close> is the completion
    \<open>Exited 1\<close>.
  \<^item> The BigQuery client is a parameter: a function from the queries issued so far and
    the query text to either an error or the rows of the answer.
  \<^item> The file system and the CSV writer are a parameter too, the sink: a function from
    the name of the file and the rows to either an error or completion.
\<close>

subsection \<open>Python's string methods\<close>

text \<open>\<^verbatim>\<open>str.isspace\<close> on the code points below 256: tab to carriage return, the four
  separators 0x1C to 0x1F, space, NEL (0x85) and the no-break space (0xA0).\<close>

definition isspace :: "char \<Rightarrow> bool" where
  "isspace c = (of_char c \<in> {9, 10, 11, 12, 13, 28, 29, 30, 31, 32, 133, 160 :: nat})"

text \<open>\<^verbatim>\<open>str.lower\<close> on one code point below 256: the ASCII capitals and the Latin-1
  capitals 0xC0 to 0xDE (the multiplication sign 0xD7 apart) move up by 32.\<close>

definition lower_char :: "char \<Rightarrow> char" where
  "lower_char c =
     (let n = of_char c :: nat
      in if (65 \<le> n \<and> n \<le> 90) \<or> (192 \<le> n \<and> n \<le> 222 \<and> n \<noteq> 215)
         then char_of (n + 32) else c)"

definition lower :: "string \<Rightarrow> string" where
  "lower s = map lower_char s"

definition lstrip :: "string \<Rightarrow> string" where
  "lstrip s = dropWhile isspace s"

definition rstrip :: "string \<Rightarrow> string" where
  "rstrip s = rev (dropWhile isspace (rev s))"

definition strip :: "string \<Rightarrow> string" where
  "strip s = rstrip (lstrip s)"

definition startswith :: "string \<Rightarrow> string \<Rightarrow> bool" where
  "startswith s p = (take (length p) s = p)"

text \<open>\<^verbatim>\<open>s.split(sep)\<close> for a separator of one character: every occurrence of the
  separator ends a segment, so the empty string gives one empty segment.\<close>

fun split_acc :: "char \<Rightarrow> string \<Rightarrow> string \<Rightarrow> string list" where
  "split_acc sep acc [] = [rev acc]"
| "split_acc sep acc (c # cs) =
     (if c = sep then rev acc # split_acc sep [] cs else split_acc sep (c # acc) cs)"

definition split_str :: "char \<Rightarrow> string \<Rightarrow> string list" where
  "split_str sep s = split_acc sep [] s"

text \<open>\<^verbatim>\<open>sep.join(xs)\<close>.\<close>

fun join_str :: "string \<Rightarrow> string list \<Rightarrow> string" where
  "join_str sep [] = []"
| "join_str sep [x] = x"
| "join_str sep (x # y # ys) = x @ sep @ join_str sep (y # ys)"

text \<open>\<^verbatim>\<open>str(n)\<close> of an integer: its decimal digits, with a minus sign when negative.\<close>

definition digit_char :: "nat \<Rightarrow> char" where
  "digit_char d = char_of (48 + d)"

fun str_of_nat :: "nat \<Rightarrow> string" where
  "str_of_nat n =
     (if n < 10 then [digit_char n] else str_of_nat (n div 10) @ [digit_char (n mod 10)])"

declare str_of_nat.simps [simp del]

definition str_of_int :: "int \<Rightarrow> string" where
  "str_of_int i = (if i < 0 then CHR ''-'' # str_of_nat (nat (- i)) else str_of_nat (nat i))"

text \<open>The truth test on an optional string and on an optional integer, and the text an
  f-string interpolates for an optional string.\<close>

fun truthy :: "string option \<Rightarrow> bool" where
  "truthy None = False"
| "truthy (Some s) = (s \<noteq> [])"

fun truthy_int :: "int option \<Rightarrow> bool" where
  "truthy_int None = False"
| "truthy_int (Some n) = (n \<noteq> 0)"

fun fmt :: "string option \<Rightarrow> string" where
  "fmt None = ''None''"
| "fmt (Some s) = s"

fun fmt_int :: "int option \<Rightarrow> string" where
  "fmt_int None = ''None''"
| "fmt_int (Some n) = str_of_int n"

definition quote :: char where
  "quote = CHR 0x27"

subsection \<open>QueryBuilder\<close>

definition normalize_where_clause :: "string option \<Rightarrow> string option" where
  "normalize_where_clause where_clause =
     (if \<not> truthy where_clause then None
      else let w = strip (fmt where_clause)
           in Some (if \<not> startswith (lower w) ''where'' then ''where '' @ w else w))"

definition normalize_order_by_clause :: "string option \<Rightarrow> string option" where
  "normalize_order_by_clause order_by_clause =
     (if \<not> truthy order_by_clause then None
      else let ob = strip (fmt order_by_clause)
           in Some (if \<not> startswith (lower ob) ''order by'' then ''order by '' @ ob else ob))"

text \<open>\<^verbatim>\<open>common_columns\<close> is a Python set: its truth test is non-emptiness, and
  \<^verbatim>\<open>sorted\<close> lists its elements in the order of the code points.\<close>

definition build_column_list :: "string option \<Rightarrow> string set option \<Rightarrow> string" where
  "build_column_list columns common_columns =
     (if truthy columns then fmt columns
      else case common_columns of
             None \<Rightarrow> ''*''
           | Some cs \<Rightarrow> if cs \<noteq> {} then join_str '', '' (sorted_list_of_set cs) else ''*'')"

definition build_row_count_query :: "string \<Rightarrow> string option \<Rightarrow> string" where
  "build_row_count_query table where_clause =
     (let query = ''SELECT COUNT(*) as count FROM '' @ table
      in if truthy where_clause then query @ '' '' @ fmt where_clause else query)"

definition where_part :: "string option \<Rightarrow> string" where
  "where_part where_clause = (if truthy where_clause then '' '' @ fmt where_clause else [])"

definition except_query :: "string \<Rightarrow> string \<Rightarrow> string \<Rightarrow> string option \<Rightarrow> string" where
  "except_query table1 table2 columns where_clause =
     ''\<newline>SELECT '' @ columns @ '' FROM '' @ table1 @ where_part where_clause @
     ''\<newline>EXCEPT DISTINCT\<newline>SELECT '' @ columns @ '' FROM '' @ table2 @ where_part where_clause"

definition outer_select :: "string option \<Rightarrow> string" where
  "outer_select add_source_column =
     (if truthy add_source_column
      then ''SELECT *, '' @ [quote] @ fmt add_source_column @ [quote] @ '' as source_table''
      else ''SELECT *'')"

definition build_except_distinct_query ::
  "string \<Rightarrow> string \<Rightarrow> string \<Rightarrow> string option \<Rightarrow> string option \<Rightarrow> int option \<Rightarrow>
   string option \<Rightarrow> string" where
  "build_except_distinct_query table1 table2 columns where_clause order_by_clause limit
     add_source_column =
     (let query =
        (if truthy add_source_column \<or> truthy order_by_clause
         then let query = outer_select add_source_column @ '' FROM ('' @
                          except_query table1 table2 columns where_clause @ '')''
              in if truthy order_by_clause then query @ '' '' @ fmt order_by_clause else query
         else except_query table1 table2 columns where_clause);
          query = (if truthy_int limit then query @ '' LIMIT '' @ fmt_int limit else query)
      in strip query)"

definition build_union_query :: "string list \<Rightarrow> string option \<Rightarrow> string" where
  "build_union_query queries order_by_clause =
     (let union_query = join_str '' UNION ALL '' (map (\<lambda>q. ''('' @ q @ '')'') queries)
      in if truthy order_by_clause
         then ''SELECT * FROM ('' @ union_query @ '') '' @ fmt order_by_clause
         else union_query)"

subsection \<open>The query-execution collaborator\<close>

text \<open>
  A row of an answer maps column names to values; \<^verbatim>\<open>row.name\<close> reads a column and
  raises \<^verbatim>\<open>AttributeError\<close> when the row has none of that name.
  \<^verbatim>\<open>client.query(q).result()\<close> either raises or gives the rows; the answer may
  depend on the queries issued before. Every query is recorded in the order of issue,
  together with the messages that carry the outcome of the run (the informational
  prints are left out).
\<close>

datatype val = VNull | VBool bool | VInt int | VStr string

type_synonym row = "(string \<times> val) list"

datatype error =
    QueryFailed
  | StopIteration
  | AttributeError
  | TypeError
  | ValueError
  | OSError

type_synonym client = "string list \<Rightarrow> string \<Rightarrow> error + row list"

text \<open>
  The sink stands for the \<^verbatim>\<open>with open(output_file, "w", newline="")\<close> block of
  \<^verbatim>\<open>export_all_differences\<close>: opening the file, the \<^verbatim>\<open>csv.DictWriter\<close> on the keys of
  the first row, the header, the rows and the closing of the file. It raises what any of
  these raises (\<^verbatim>\<open>OSError\<close> from the file system, \<^verbatim>\<open>ValueError\<close> from the writer on a
  row with a key that the first row lacks) or completes.
\<close>

type_synonym sink = "string \<Rightarrow> row list \<Rightarrow> error + unit"

datatype msg =
    NoCommonColumns
  | TestPass
  | TestFail
  | ErrorExecuting
  | InputError string

record run_state =
  issued :: "string list"
  printed :: "msg list"

type_synonym 'a io = "run_state \<Rightarrow> (error + 'a) \<times> run_state"

definition return_io :: "'a \<Rightarrow> 'a io" where
  "return_io x s = (Inr x, s)"

definition raise_io :: "error \<Rightarrow> 'a io" where
  "raise_io e s = (Inl e, s)"

definition bind_io :: "'a io \<Rightarrow> ('a \<Rightarrow> 'b io) \<Rightarrow> 'b io" where
  "bind_io m f s = (case m s of (Inl e, s') \<Rightarrow> (Inl e, s') | (Inr x, s') \<Rightarrow> f x s')"

definition lift_io :: "error + 'a \<Rightarrow> 'a io" where
  "lift_io r s = (r, s)"

definition print_io :: "msg \<Rightarrow> unit io" where
  "print_io m s = (Inr (), s\<lparr>printed := printed s @ [m]\<rparr>)"

definition client_query :: "client \<Rightarrow> string \<Rightarrow> row list io" where
  "client_query client q s = (client (issued s) q, s\<lparr>issued := issued s @ [q]\<rparr>)"

definition attr :: "row \<Rightarrow> string \<Rightarrow> error + val" where
  "attr r name = (case map_of r name of None \<Rightarrow> Inl AttributeError | Some v \<Rightarrow> Inr v)"

text \<open>\<^verbatim>\<open>next(result)\<close> raises \<^verbatim>\<open>StopIteration\<close> on an answer without rows.\<close>

definition next_row :: "row list \<Rightarrow> error + row" where
  "next_row rows = (case rows of [] \<Rightarrow> Inl StopIteration | r # _ \<Rightarrow> Inr r)"

text \<open>The truth test on a value of an answer.\<close>

fun truthy_val :: "val \<Rightarrow> bool" where
  "truthy_val VNull = False"
| "truthy_val (VBool b) = b"
| "truthy_val (VInt n) = (n \<noteq> 0)"
| "truthy_val (VStr s) = (s \<noteq> [])"

subsection \<open>TableComparator\<close>

definition schema_query :: "string \<Rightarrow> string \<Rightarrow> string \<Rightarrow> string" where
  "schema_query project dataset table_name =
     ''\<newline>        SELECT column_name, data_type \<newline>        FROM `'' @ project @ ''.'' @
     dataset @ ''.INFORMATION_SCHEMA.COLUMNS` \<newline>        WHERE table_name = '' @ [quote] @
     table_name @ [quote] @ '' \<newline>        ORDER BY ordinal_position\<newline>        ''"

text \<open>The schema is annotated \<^verbatim>\<open>List[Tuple[str, str]]\<close>: the catalog answers with two
  string columns. The model takes the annotation as the contract of the collaborator
  and ends the read with \<^verbatim>\<open>TypeError\<close> on a value that is no string.\<close>

definition as_str :: "val \<Rightarrow> error + string" where
  "as_str v = (case v of VStr s \<Rightarrow> Inr s | _ \<Rightarrow> Inl TypeError)"

fun schema_rows :: "row list \<Rightarrow> error + (string \<times> string) list" where
  "schema_rows [] = Inr []"
| "schema_rows (r # rs) =
     (case attr r ''column_name'' of
        Inl e \<Rightarrow> Inl e
      | Inr n \<Rightarrow>
          (case as_str n of
             Inl e \<Rightarrow> Inl e
           | Inr name \<Rightarrow>
               (case attr r ''data_type'' of
                  Inl e \<Rightarrow> Inl e
                | Inr t \<Rightarrow>
                    (case as_str t of
                       Inl e \<Rightarrow> Inl e
                     | Inr ty \<Rightarrow>
                         (case schema_rows rs of
                            Inl e \<Rightarrow> Inl e
                          | Inr xs \<Rightarrow> Inr ((name, ty) # xs))))))"

definition get_table_schema ::
  "client \<Rightarrow> string \<Rightarrow> string \<Rightarrow> string \<Rightarrow> (string \<times> string) list io" where
  "get_table_schema client project dataset table_name =
     bind_io (client_query client (schema_query project dataset table_name))
       (\<lambda>result. lift_io (schema_rows result))"

definition get_row_count :: "client \<Rightarrow> string \<Rightarrow> string option \<Rightarrow> val io" where
  "get_row_count client table where_clause =
     bind_io (client_query client (build_row_count_query table where_clause))
       (\<lambda>result. lift_io (case next_row result of Inl e \<Rightarrow> Inl e | Inr r \<Rightarrow> attr r ''count''))"

record schema_analysis =
  common_columns :: "string set"
  only_in_table1 :: "string set"
  only_in_table2 :: "string set"
  schema_mismatches :: "(string \<times> string \<times> string) list"
  missing_specified_cols :: "string set"
  schemas_identical :: bool

text \<open>\<^verbatim>\<open>dict(schema)\<close> keeps the last type of a repeated name. The loop over
  \<^verbatim>\<open>common_columns\<close> visits the set in an order Python leaves open; the model visits
  it in sorted order, and the properties below use the list of mismatches through its
  elements and its emptiness only.\<close>

definition schema_dict :: "(string \<times> string) list \<Rightarrow> string \<rightharpoonup> string" where
  "schema_dict schema = map_of (rev schema)"

definition mismatch_of ::
  "(string \<rightharpoonup> string) \<Rightarrow> (string \<rightharpoonup> string) \<Rightarrow> string \<Rightarrow> (string \<times> string \<times> string) list" where
  "mismatch_of schema1_dict schema2_dict col =
     (case (schema1_dict col, schema2_dict col) of
        (Some t1, Some t2) \<Rightarrow> if t1 \<noteq> t2 then [(col, t1, t2)] else []
      | _ \<Rightarrow> [])"

definition analyze_schemas ::
  "(string \<times> string) list \<Rightarrow> (string \<times> string) list \<Rightarrow> string option \<Rightarrow> schema_analysis" where
  "analyze_schemas schema1 schema2 specific_columns =
     (let schema1_columns = set (map fst schema1);
          schema2_columns = set (map fst schema2);
          specified_cols = map strip (split_str (CHR '','') (fmt specific_columns));
          common = (if truthy specific_columns
                    then set specified_cols \<inter> schema1_columns \<inter> schema2_columns
                    else schema1_columns \<inter> schema2_columns);
          missing_cols = (if truthy specific_columns then set specified_cols - common else {});
          mismatches = concat (map (mismatch_of (schema_dict schema1) (schema_dict schema2))
                                   (sorted_list_of_set common))
      in \<lparr> common_columns = common,
           only_in_table1 = schema1_columns - schema2_columns,
           only_in_table2 = schema2_columns - schema1_columns,
           schema_mismatches = mismatches,
           missing_specified_cols = missing_cols,
           schemas_identical =
             (length schema1 = length schema2 \<and> mismatches = [] \<and> \<not> truthy specific_columns) \<rparr>)"

definition exists_query :: "string \<Rightarrow> string \<Rightarrow> string \<Rightarrow> string option \<Rightarrow> string" where
  "exists_query table1 table2 columns where_clause =
     ''\<newline>        SELECT \<newline>          CASE \<newline>            WHEN EXISTS (\<newline>'' @
     ''              SELECT '' @ columns @ '' FROM '' @ table1 @ where_part where_clause @
     ''\<newline>              EXCEPT DISTINCT\<newline>'' @
     ''              SELECT '' @ columns @ '' FROM '' @ table2 @ where_part where_clause @
     ''\<newline>            ) OR EXISTS (\<newline>'' @
     ''              SELECT '' @ columns @ '' FROM '' @ table2 @ where_part where_clause @
     ''\<newline>              EXCEPT DISTINCT\<newline>'' @
     ''              SELECT '' @ columns @ '' FROM '' @ table1 @ where_part where_clause @
     ''\<newline>            ) THEN TRUE\<newline>            ELSE FALSE\<newline>'' @
     ''          END as has_differences\<newline>        ''"

definition check_data_differences ::
  "client \<Rightarrow> string \<Rightarrow> string \<Rightarrow> string \<Rightarrow> string option \<Rightarrow> val io" where
  "check_data_differences client table1 table2 columns where_clause =
     bind_io (client_query client (exists_query table1 table2 columns where_clause))
       (\<lambda>result. lift_io (case next_row result of
                             Inl e \<Rightarrow> Inl e
                           | Inr r \<Rightarrow> attr r ''has_differences''))"

definition get_sample_differences ::
  "client \<Rightarrow> string \<Rightarrow> string \<Rightarrow> string \<Rightarrow> string option \<Rightarrow> string option \<Rightarrow> int \<Rightarrow>
   (row list \<times> row list) io" where
  "get_sample_differences client table1 table2 columns where_clause order_by_clause limit =
     (let query1 = build_except_distinct_query table1 table2 columns where_clause
                     order_by_clause (Some limit) None;
          query2 = build_except_distinct_query table2 table1 columns where_clause
                     order_by_clause (Some limit) None
      in bind_io (client_query client query1) (\<lambda>result1.
         bind_io (client_query client query2) (\<lambda>result2.
         return_io (result1, result2))))"

text \<open>The export hands the rows to the sink when there are any (\<^verbatim>\<open>if rows:\<close>), and
  returns their number.\<close>

definition export_query ::
  "string \<Rightarrow> string \<Rightarrow> string \<Rightarrow> string \<Rightarrow> string \<Rightarrow> string option \<Rightarrow> string option \<Rightarrow> string" where
  "export_query table1 table2 table1_name table2_name columns where_clause order_by_clause =
     (let query1 = build_except_distinct_query table1 table2 columns where_clause None None
                     (Some (''exclusive_to_'' @ table1_name));
          query2 = build_except_distinct_query table2 table1 columns where_clause None None
                     (Some (''exclusive_to_'' @ table2_name))
      in build_union_query [query1, query2] order_by_clause)"

definition write_csv :: "sink \<Rightarrow> string \<Rightarrow> row list \<Rightarrow> unit io" where
  "write_csv sink output_file rows =
     lift_io (if rows \<noteq> [] then sink output_file rows else Inr ())"

definition export_all_differences ::
  "client \<Rightarrow> sink \<Rightarrow> string \<Rightarrow> string \<Rightarrow> string \<Rightarrow> string \<Rightarrow> string \<Rightarrow> string \<Rightarrow>
   string option \<Rightarrow> string option \<Rightarrow> nat io" where
  "export_all_differences client sink table1 table2 table1_name table2_name columns
     output_file where_clause order_by_clause =
     bind_io (client_query client
                (export_query table1 table2 table1_name table2_name columns where_clause
                   order_by_clause))
       (\<lambda>rows. bind_io (write_csv sink output_file rows)
       (\<lambda>_. return_io (length rows)))"

subsection \<open>execute\_comparison\<close>

text \<open>The row counts are only printed, with the format \<^verbatim>\<open>{count:,}\<close>, which accepts a
  number and raises on a string (\<^verbatim>\<open>ValueError\<close>) and on \<^verbatim>\<open>None\<close> (\<^verbatim>\<open>TypeError\<close>).\<close>

definition format_count :: "val \<Rightarrow> unit io" where
  "format_count v =
     lift_io (case v of
                VInt _ \<Rightarrow> Inr ()
              | VBool _ \<Rightarrow> Inr ()
              | VStr _ \<Rightarrow> Inl ValueError
              | VNull \<Rightarrow> Inl TypeError)"

datatype completion = Returned | Exited nat

text \<open>The body of the \<^verbatim>\<open>try\<close> block.\<close>

definition comparison_body ::
  "client \<Rightarrow> sink \<Rightarrow> string \<Rightarrow> string \<Rightarrow> string \<Rightarrow> string \<Rightarrow> string \<Rightarrow> string \<Rightarrow> string \<Rightarrow> string \<Rightarrow>
   string option \<Rightarrow> string option \<Rightarrow> string option \<Rightarrow> unit io" where
  "comparison_body client sink table1_full table2_full table1_project table1_dataset table1_name
     table2_project table2_dataset table2_name where_clause order_by_clause specific_columns =
     bind_io (get_table_schema client table1_project table1_dataset table1_name) (\<lambda>schema1.
     bind_io (get_table_schema client table2_project table2_dataset table2_name) (\<lambda>schema2.
     let analysis = analyze_schemas schema1 schema2 specific_columns
     in if common_columns analysis = {} then print_io NoCommonColumns
        else
          bind_io (get_row_count client table1_full where_clause) (\<lambda>count1.
          bind_io (get_row_count client table2_full where_clause) (\<lambda>count2.
          bind_io (format_count count1) (\<lambda>_.
          bind_io (format_count count2) (\<lambda>_.
          let columns = build_column_list specific_columns (Some (common_columns analysis))
          in bind_io (check_data_differences client table1_full table2_full columns where_clause)
               (\<lambda>has_differences.
                  if \<not> truthy_val has_differences then print_io TestPass
                  else
                    bind_io (print_io TestFail) (\<lambda>_.
                    bind_io (get_sample_differences client table1_full table2_full columns
                               where_clause order_by_clause 10) (\<lambda>samples.
                    let output_file = ''table_row_differences.csv''
                    in bind_io (export_all_differences client sink table1_full table2_full
                                  table1_name table2_name columns output_file where_clause
                                  order_by_clause) (\<lambda>total_diffs.
                       return_io ()))))))))))"

definition execute_comparison ::
  "client \<Rightarrow> sink \<Rightarrow> string \<Rightarrow> string \<Rightarrow> string \<Rightarrow> string \<Rightarrow> string \<Rightarrow> string \<Rightarrow> string \<Rightarrow> string \<Rightarrow>
   string option \<Rightarrow> string option \<Rightarrow> string option \<Rightarrow> run_state \<times> completion" where
  "execute_comparison client sink table1_full table2_full table1_project table1_dataset table1_name
     table2_project table2_dataset table2_name where_clause order_by_clause specific_columns =
     (let where_clause = normalize_where_clause where_clause;
          order_by_clause = normalize_order_by_clause order_by_clause
      in case comparison_body client sink table1_full table2_full table1_project table1_dataset
                table1_name table2_project table2_dataset table2_name where_clause
                order_by_clause specific_columns \<lparr>issued = [], printed = []\<rparr> of
           (Inl e, s) \<Rightarrow> (s\<lparr>printed := printed s @ [ErrorExecuting]\<rparr>, Exited 1)
         | (Inr _, s) \<Rightarrow> (s, Returned))"

subsection \<open>main\<close>

text \<open>\<^verbatim>\<open>parse_table_path\<close> raises \<^verbatim>\<open>ValueError\<close> only; the left injection carries its
  message.\<close>

definition parse_table_path :: "string \<Rightarrow> string + string \<times> string \<times> string" where
  "parse_table_path table_path =
     (let parts = split_str (CHR ''.'') table_path
      in if length parts \<noteq> 3
         then Inl (''Table path must be in format '' @ [quote] @ ''project.dataset.table'' @
                   [quote] @ '', got: '' @ table_path)
         else Inr (parts ! 0, parts ! 1, parts ! 2))"

record args =
  table1 :: string
  table2 :: string
  where_clause :: "string option"
  order_by_clause :: "string option"
  specific_columns :: "string option"

definition input_error :: "string \<Rightarrow> run_state \<times> completion" where
  "input_error e = (\<lparr>issued = [], printed = [InputError e]\<rparr>, Exited 1)"

definition main :: "client \<Rightarrow> sink \<Rightarrow> args \<Rightarrow> run_state \<times> completion" where
  "main client sink a =
     (case parse_table_path (table1 a) of
        Inl e \<Rightarrow> input_error e
      | Inr (table1_project, table1_dataset, table1_name) \<Rightarrow>
          (case parse_table_path (table2 a) of
             Inl e \<Rightarrow> input_error e
           | Inr (table2_project, table2_dataset, table2_name) \<Rightarrow>
               execute_comparison client sink (table1 a) (table2 a) table1_project table1_dataset
                 table1_name table2_project table2_dataset table2_name (where_clause a)
                 (order_by_clause a) (specific_columns a)))"

subsection \<open>Notions used in the statements and proofs\<close>

text \<open>A fragment that is given, not empty, and made of whitespace only.\<close>

fun whitespace_only :: "string option \<Rightarrow> bool" where
  "whitespace_only None = False"
| "whitespace_only (Some w) = (w \<noteq> [] \<and> list_all isspace w)"

text \<open>The number of positions of a string at which a non-empty pattern occurs.\<close>

fun count_sub :: "string \<Rightarrow> string \<Rightarrow> nat" where
  "count_sub p [] = 0"
| "count_sub p (c # cs) = (if startswith (c # cs) p then 1 else 0) + count_sub p cs"

text \<open>The parts of the text \<^verbatim>\<open>build_except_distinct_query\<close> puts together: the clause
  appended for a limit, the clause appended for an ordering, the wrapped query, and the
  whole query before the limit is appended.\<close>

definition limit_part :: "int option \<Rightarrow> string" where
  "limit_part limit = (if truthy_int limit then '' LIMIT '' @ fmt_int limit else [])"

definition order_part :: "string option \<Rightarrow> string" where
  "order_part ob = (if truthy ob then '' '' @ fmt ob else [])"

definition wrapped :: "string \<Rightarrow> string \<Rightarrow> string \<Rightarrow> string option \<Rightarrow> string option \<Rightarrow> string" where
  "wrapped t1 t2 cols w lab = outer_select lab @ '' FROM ('' @ except_query t1 t2 cols w @ '')''"

definition base_query ::
  "string \<Rightarrow> string \<Rightarrow> string \<Rightarrow> string option \<Rightarrow> string option \<Rightarrow> string option \<Rightarrow> string" where
  "base_query t1 t2 cols w ob lab =
     (if truthy lab \<or> truthy ob then wrapped t1 t2 cols w lab @ order_part ob
      else except_query t1 t2 cols w)"

text \<open>A client that answers the n-th query of a run with the n-th entry of a script,
  whatever the query, and fails once the script is used up.\<close>

definition scripted_client :: "(error + row list) list \<Rightarrow> client" where
  "scripted_client answers log q =
     (if length log < length answers then answers ! length log else Inl QueryFailed)"

section \<open>Properties\<close>

subsection \<open>Stripping\<close>

lemma lstrip_Nil_iff: "lstrip s = [] \<longleftrightarrow> (\<forall>c\<in>set s. isspace c)"
  by (simp add: lstrip_def dropWhile_eq_Nil_conv)

lemma rstrip_Nil_iff: "rstrip s = [] \<longleftrightarrow> (\<forall>c\<in>set s. isspace c)"
  by (simp add: rstrip_def dropWhile_eq_Nil_conv)

lemma lstrip_noop: "s = [] \<or> \<not> isspace (hd s) \<Longrightarrow> lstrip s = s"
  by (cases s) (auto simp: lstrip_def)

lemma rstrip_noop: "s = [] \<or> \<not> isspace (last s) \<Longrightarrow> rstrip s = s"
proof -
  assume a: "s = [] \<or> \<not> isspace (last s)"
  have "dropWhile isspace (rev s) = rev s"
  proof (cases "rev s")
    case Nil
    then show ?thesis by simp
  next
    case (Cons x xs)
    with a have "\<not> isspace x" by (cases s rule: rev_cases) auto
    with Cons show ?thesis by simp
  qed
  then show ?thesis by (simp add: rstrip_def)
qed

lemma hd_lstrip: "lstrip s \<noteq> [] \<Longrightarrow> \<not> isspace (hd (lstrip s))"
  unfolding lstrip_def by (rule hd_dropWhile)

lemma last_rstrip: "rstrip s \<noteq> [] \<Longrightarrow> \<not> isspace (last (rstrip s))"
proof -
  assume a: "rstrip s \<noteq> []"
  then have "dropWhile isspace (rev s) \<noteq> []" by (simp add: rstrip_def)
  then have "\<not> isspace (hd (dropWhile isspace (rev s)))" by (rule hd_dropWhile)
  moreover have "last (rstrip s) = hd (dropWhile isspace (rev s))"
    using a by (simp add: rstrip_def last_rev)
  ultimately show ?thesis by simp
qed

lemma rstrip_append:
  "rstrip (a @ b) = (if rstrip b = [] then rstrip a else a @ rstrip b)"
  by (auto simp: rstrip_def dropWhile_append dropWhile_eq_Nil_conv)

lemma lstrip_append:
  "lstrip (a @ b) = (if lstrip a = [] then lstrip b else lstrip a @ b)"
  by (auto simp: lstrip_def dropWhile_append dropWhile_eq_Nil_conv)

lemma hd_rstrip: "rstrip s \<noteq> [] \<Longrightarrow> hd (rstrip s) = hd s"
proof (cases s)
  case Nil
  then show ?thesis by (simp add: rstrip_def)
next
  case (Cons x xs)
  assume ne: "rstrip s \<noteq> []"
  have "rstrip (x # xs) = (if rstrip xs = [] then rstrip [x] else x # rstrip xs)"
    using rstrip_append[of "[x]" xs] by simp
  moreover have "rstrip [x] = (if isspace x then [] else [x])"
    by (simp add: rstrip_def)
  ultimately show ?thesis using ne Cons by (auto split: if_splits)
qed

lemma strip_Nil_iff: "strip s = [] \<longleftrightarrow> (\<forall>c\<in>set s. isspace c)"
proof -
  show ?thesis
  proof
    assume "strip s = []"
    then have "\<forall>c\<in>set (lstrip s). isspace c" by (simp add: strip_def rstrip_Nil_iff)
    then have "lstrip s = []" using hd_lstrip[of s] by (cases "lstrip s") auto
    then show "\<forall>c\<in>set s. isspace c" by (simp add: lstrip_Nil_iff)
  next
    assume "\<forall>c\<in>set s. isspace c"
    then have "lstrip s = []" by (simp add: lstrip_Nil_iff)
    then show "strip s = []" by (simp add: strip_def rstrip_def)
  qed
qed

lemma strip_ends:
  assumes "strip s \<noteq> []"
  shows "\<not> isspace (hd (strip s))" and "\<not> isspace (last (strip s))"
proof -
  from assms have ne: "lstrip s \<noteq> []" by (auto simp: strip_def rstrip_def)
  from assms have "hd (strip s) = hd (lstrip s)" unfolding strip_def by (rule hd_rstrip)
  with hd_lstrip[OF ne] show "\<not> isspace (hd (strip s))" by simp
  from assms show "\<not> isspace (last (strip s))" unfolding strip_def by (rule last_rstrip)
qed

lemma strip_noop: "s = [] \<or> (\<not> isspace (hd s) \<and> \<not> isspace (last s)) \<Longrightarrow> strip s = s"
  by (auto simp: strip_def lstrip_noop rstrip_noop)

lemma strip_strip: "strip (strip s) = strip s"
  using strip_ends[of s] by (intro strip_noop) auto

subsection \<open>Clause normalisation\<close>

lemma normalize_where_clause_Some:
  "w \<noteq> [] \<Longrightarrow> normalize_where_clause (Some w) =
     Some (if startswith (lower (strip w)) ''where'' then strip w else ''where '' @ strip w)"
  by (simp add: normalize_where_clause_def Let_def)

lemma normalize_order_by_clause_Some:
  "w \<noteq> [] \<Longrightarrow> normalize_order_by_clause (Some w) =
     Some (if startswith (lower (strip w)) ''order by'' then strip w else ''order by '' @ strip w)"
  by (simp add: normalize_order_by_clause_def Let_def)

lemma where_fixpoint:
  assumes "s \<noteq> []" "\<not> isspace (hd s)" "\<not> isspace (last s)"
  shows "normalize_where_clause
           (Some (if startswith (lower s) ''where'' then s else ''where '' @ s)) =
         Some (if startswith (lower s) ''where'' then s else ''where '' @ s)"
proof (cases "startswith (lower s) ''where''")
  case True
  moreover have "strip s = s" using assms by (simp add: strip_noop)
  ultimately show ?thesis using assms by (simp add: normalize_where_clause_Some)
next
  case False
  let ?r = "''where '' @ s"
  have "\<not> isspace (last ?r)" using assms by simp
  moreover have "\<not> isspace (hd ?r)" by (simp add: isspace_def)
  ultimately have "strip ?r = ?r" by (intro strip_noop) simp
  moreover have "startswith (lower ?r) ''where''"
    by (simp add: lower_def lower_char_def startswith_def)
  ultimately show ?thesis using False by (simp add: normalize_where_clause_Some)
qed

lemma whitespace_only_where:
  assumes "whitespace_only F"
  shows "normalize_where_clause F = Some ''where ''"
proof -
  from assms obtain w where F: "F = Some w" and w: "w \<noteq> []" "\<forall>c\<in>set w. isspace c"
    by (cases F) (auto simp: list_all_iff)
  from w have "strip w = []" by (simp add: strip_Nil_iff)
  with F w show ?thesis by (simp add: normalize_where_clause_Some startswith_def lower_def)
qed

lemma where_second_pass: "normalize_where_clause (Some ''where '') = Some ''where''"
  by (simp add: normalize_where_clause_def strip_def lstrip_def rstrip_def isspace_def
      startswith_def lower_def lower_char_def)

text \<open>
  C4 (amended). \<^verbatim>\<open>normalize_where_clause\<close> applied twice gives the result of applying it
  once exactly when the fragment is not a non-empty string of whitespace only: it is
  idempotent on \<^verbatim>\<open>None\<close>, on the empty string and on every fragment with a character
  that is no whitespace. It returns \<^verbatim>\<open>None\<close> on \<^verbatim>\<open>None\<close> and on the empty string; on
  any other fragment it trims the whitespace and prepends \<^verbatim>\<open>where\<close> and a space only when
  the lower-cased trimmed fragment does not start with \<^verbatim>\<open>where\<close>.
\<close>

theorem normalize_where_clause_idempotent_iff:
  "(normalize_where_clause (normalize_where_clause F) = normalize_where_clause F
      \<longleftrightarrow> \<not> whitespace_only F) \<and>
   normalize_where_clause None = None \<and>
   normalize_where_clause (Some []) = None \<and>
   (\<forall>w. w \<noteq> [] \<longrightarrow>
      normalize_where_clause (Some w) =
        Some (if startswith (lower (strip w)) ''where'' then strip w
              else ''where '' @ strip w))"
proof -
  have none: "normalize_where_clause None = None"
    by (simp add: normalize_where_clause_def)
  have empty: "normalize_where_clause (Some []) = None"
    by (simp add: normalize_where_clause_def)
  have idem: "normalize_where_clause (normalize_where_clause F) = normalize_where_clause F"
    if "\<not> whitespace_only F"
  proof (cases F)
    case None
    then show ?thesis by (simp add: none)
  next
    case (Some w)
    show ?thesis
    proof (cases "w = []")
      case True
      with Some show ?thesis by (simp add: none empty)
    next
      case False
      with that Some have "\<exists>c\<in>set w. \<not> isspace c" by (auto simp: list_all_iff)
      then have ne: "strip w \<noteq> []" by (simp add: strip_Nil_iff)
      from where_fixpoint[OF ne strip_ends[OF ne]] Some False show ?thesis
        by (simp add: normalize_where_clause_Some)
    qed
  qed
  have not_idem:
    "normalize_where_clause (normalize_where_clause F) \<noteq> normalize_where_clause F"
    if "whitespace_only F"
    using whitespace_only_where[OF that] by (simp add: where_second_pass)
  from idem not_idem none empty show ?thesis
    by (auto simp: normalize_where_clause_Some)
qed

theorem normalize_where_clause_idempotent_iff_witness:
  "normalize_where_clause (normalize_where_clause (Some '' x = 1 '')) =
     normalize_where_clause (Some '' x = 1 '') \<and>
   \<not> whitespace_only (Some '' x = 1 '') \<and>
   normalize_where_clause (Some '' x = 1 '') = Some ''where x = 1''"
  using normalize_where_clause_idempotent_iff [of "Some '' x = 1 ''"]
  by (simp add: isspace_def strip_def lstrip_def rstrip_def startswith_def lower_def
      lower_char_def)

text \<open>
  C4 as stated fails on a fragment of one space: the emptiness test comes before the
  trimming, so the first pass gives \<^verbatim>\<open>where\<close> followed by a space, and the second pass
  trims that space.
\<close>

theorem normalize_where_clause_whitespace_counterexample:
  "normalize_where_clause (normalize_where_clause (Some '' '')) \<noteq>
   normalize_where_clause (Some '' '')"
  by (simp add: normalize_where_clause_def strip_def lstrip_def rstrip_def isspace_def
      startswith_def lower_def lower_char_def)

text \<open>
  C9. A fragment whose trimmed, lower-cased text starts with \<^verbatim>\<open>where\<close> is returned
  trimmed and otherwise unchanged by \<^verbatim>\<open>normalize_where_clause\<close>: the keyword keeps the
  casing it came with and no second keyword is put in front. The same holds for
  \<^verbatim>\<open>normalize_order_by_clause\<close> and \<^verbatim>\<open>order by\<close>.
\<close>

theorem normalize_keeps_existing_keyword:
  "(startswith (lower (strip F)) ''where'' \<longrightarrow>
      normalize_where_clause (Some F) = Some (strip F) \<and>
      normalize_where_clause (Some F) \<noteq> Some (''where '' @ strip F)) \<and>
   (startswith (lower (strip F)) ''order by'' \<longrightarrow>
      normalize_order_by_clause (Some F) = Some (strip F) \<and>
      normalize_order_by_clause (Some F) \<noteq> Some (''order by '' @ strip F))"
proof -
  have "F \<noteq> []" if "startswith (lower (strip F)) p" "p \<noteq> []" for p
    using that by (auto simp: startswith_def strip_def lstrip_def rstrip_def lower_def)
  from this[of "''where''"] this[of "''order by''"] show ?thesis
    by (auto simp: normalize_where_clause_Some normalize_order_by_clause_Some)
qed

theorem normalize_keeps_existing_keyword_witness:
  "startswith (lower (strip ''  WHERE x = 1 '')) ''where'' \<and>
   normalize_where_clause (Some ''  WHERE x = 1 '') = Some ''WHERE x = 1'' \<and>
   startswith (lower (strip ''Order By x  '')) ''order by'' \<and>
   normalize_order_by_clause (Some ''Order By x  '') = Some ''Order By x''"
  using normalize_keeps_existing_keyword [of "''  WHERE x = 1 ''"]
    normalize_keeps_existing_keyword [of "''Order By x  ''"]
  by (simp add: isspace_def strip_def lstrip_def rstrip_def startswith_def lower_def
      lower_char_def char_of_def bit_Suc_0_iff)

subsection \<open>The projection list\<close>

lemma join_str_Cons: "join_str sep (x # xs) = x @ concat (map (\<lambda>y. sep @ y) xs)"
  by (induction xs arbitrary: x) auto

text \<open>
  C6. \<^verbatim>\<open>build_column_list\<close> returns the explicit string as it is when one is given
  (Python's truth test: not \<^verbatim>\<open>None\<close> and not empty); else, when the derived set is
  given and not empty, its elements in sorted order joined by a comma and a space,
  whatever the order \<open>xs\<close> in which the set lists them; else the wildcard. In particular
  the set of \<^verbatim>\<open>b\<close>, \<^verbatim>\<open>a\<close>, \<^verbatim>\<open>c\<close> gives \<^verbatim>\<open>a, b, c\<close>, and no argument at all gives the
  wildcard.
\<close>

theorem build_column_list_precedence:
  "(s \<noteq> [] \<longrightarrow> build_column_list (Some s) derived = s) \<and>
   (\<not> truthy explicit \<and> xs \<noteq> [] \<longrightarrow>
      build_column_list explicit (Some (set xs)) = join_str '', '' (sort (remdups xs)) \<and>
      sorted (sort (remdups xs)) \<and> distinct (sort (remdups xs)) \<and>
      set (sort (remdups xs)) = set xs) \<and>
   (\<not> truthy explicit \<and> (derived = None \<or> derived = Some {}) \<longrightarrow>
      build_column_list explicit derived = ''*'') \<and>
   build_column_list None (Some {''b'', ''a'', ''c''}) = ''a, b, c'' \<and>
   build_column_list None None = ''*''"
proof -
  have "build_column_list None (Some {''b'', ''a'', ''c''}) =
        build_column_list None (Some (set [''b'', ''a'', ''c'']))"
    by simp
  also have "\<dots> = ''a, b, c''"
    unfolding build_column_list_def by (simp add: sorted_list_of_set_sort_remdups)
  finally show ?thesis
    by (auto simp: build_column_list_def sorted_list_of_set_sort_remdups)
qed

theorem build_column_list_precedence_witness:
  "build_column_list (Some ''x,y'') (Some {''a'', ''b''}) = ''x,y'' \<and>
   build_column_list (Some []) (Some (set [''b'', ''a'', ''c'', ''a''])) = ''a, b, c'' \<and>
   build_column_list None (Some (set [''c'', ''a'', ''b''])) = ''a, b, c'' \<and>
   build_column_list (Some []) (Some {}) = ''*''"
  using build_column_list_precedence [where derived = "Some {''a'', ''b''}" and s = "''x,y''"
      and explicit = "Some []" and xs = "[''b'', ''a'', ''c'', ''a'']"]
    build_column_list_precedence [where derived = "Some {}" and explicit = "None"
      and xs = "[''c'', ''a'', ''b'']"]
    build_column_list_precedence [where derived = "Some {}" and explicit = "Some []"]
  by simp

subsection \<open>The union query\<close>

text \<open>
  C7. Without an ordering clause \<^verbatim>\<open>build_union_query\<close> gives the sub-queries, each in
  parentheses and in their order, separated by \<^verbatim>\<open>UNION ALL\<close>. With an ordering clause
  it gives that same text, inside one \<^verbatim>\<open>SELECT * FROM (...)\<close>, followed by the
  ordering clause: the clause occurs once, after the union, and no branch changes.
\<close>

theorem build_union_query_structure:
  "build_union_query [] None = [] \<and>
   build_union_query (q # qs) None =
     ''('' @ q @ '')'' @ concat (map (\<lambda>q'. '' UNION ALL ('' @ q' @ '')'') qs) \<and>
   (\<not> truthy ob \<longrightarrow> build_union_query queries ob = build_union_query queries None) \<and>
   (truthy ob \<longrightarrow>
      build_union_query queries ob =
        ''SELECT * FROM ('' @ build_union_query queries None @ '') '' @ fmt ob)"
  by (simp add: build_union_query_def join_str_Cons comp_def)

theorem build_union_query_structure_witness:
  "truthy (Some ''order by a'') \<and>
   build_union_query [''q1'', ''q2''] (Some ''order by a'') =
     ''SELECT * FROM ((q1) UNION ALL (q2)) order by a'' \<and>
   build_union_query [''q1'', ''q2''] (Some []) = ''(q1) UNION ALL (q2)''"
  using build_union_query_structure [where q = "''q1''" and qs = "[''q2'']"
      and queries = "[''q1'', ''q2'']" and ob = "Some ''order by a''"]
    build_union_query_structure [where q = "''q1''" and qs = "[''q2'']"
      and queries = "[''q1'', ''q2'']" and ob = "Some []"]
  by (simp add: build_union_query_def)

subsection \<open>Schema reconciliation\<close>

lemma schema_dict_None_iff: "schema_dict schema c = None \<longleftrightarrow> c \<notin> set (map fst schema)"
  by (simp add: schema_dict_def map_of_eq_None_iff)

lemma mismatch_of_Nil_iff:
  "d1 c \<noteq> None \<Longrightarrow> d2 c \<noteq> None \<Longrightarrow> mismatch_of d1 d2 c = [] \<longleftrightarrow> d1 c = d2 c"
  by (auto simp: mismatch_of_def split: if_splits)

lemma common_columns_subset:
  "common_columns (analyze_schemas schema1 schema2 sc) \<subseteq>
     set (map fst schema1) \<inter> set (map fst schema2)"
  by (auto simp: analyze_schemas_def Let_def)

lemma schema_mismatches_Nil_iff:
  "schema_mismatches (analyze_schemas schema1 schema2 sc) = [] \<longleftrightarrow>
   (\<forall>c\<in>common_columns (analyze_schemas schema1 schema2 sc).
      schema_dict schema1 c = schema_dict schema2 c)"
proof -
  let ?a = "analyze_schemas schema1 schema2 sc"
  have fin: "finite (common_columns ?a)"
    using common_columns_subset[of schema1 schema2 sc] by (rule finite_subset) simp
  have dom: "schema_dict schema1 c \<noteq> None \<and> schema_dict schema2 c \<noteq> None"
    if "c \<in> common_columns ?a" for c
    using that common_columns_subset[of schema1 schema2 sc]
    by (auto simp: schema_dict_None_iff)
  have "schema_mismatches ?a =
        concat (map (mismatch_of (schema_dict schema1) (schema_dict schema2))
                    (sorted_list_of_set (common_columns ?a)))"
    by (simp add: analyze_schemas_def Let_def)
  then have "schema_mismatches ?a = [] \<longleftrightarrow>
        (\<forall>c\<in>common_columns ?a. mismatch_of (schema_dict schema1) (schema_dict schema2) c = [])"
    using fin by simp
  then show ?thesis using dom by (simp add: mismatch_of_Nil_iff)
qed

lemma set_mismatch_of:
  "set (mismatch_of d1 d2 c) = {(c', t1, t2). c' = c \<and> d1 c = Some t1 \<and> d2 c = Some t2 \<and> t1 \<noteq> t2}"
  by (auto simp: mismatch_of_def split: option.splits)

lemma common_columns_eq:
  "common_columns (analyze_schemas schema1 schema2 sc) =
     (if truthy sc
      then set (map strip (split_str (CHR '','') (fmt sc))) \<inter> set (map fst schema1) \<inter>
           set (map fst schema2)
      else set (map fst schema1) \<inter> set (map fst schema2))"
  by (simp add: analyze_schemas_def Let_def)

lemma set_schema_mismatches:
  "set (schema_mismatches (analyze_schemas schema1 schema2 sc)) =
     {(c, t1, t2). c \<in> common_columns (analyze_schemas schema1 schema2 sc) \<and>
        schema_dict schema1 c = Some t1 \<and> schema_dict schema2 c = Some t2 \<and> t1 \<noteq> t2}"
proof -
  let ?a = "analyze_schemas schema1 schema2 sc"
  have fin: "finite (common_columns ?a)"
    using common_columns_subset[of schema1 schema2 sc] by (rule finite_subset) simp
  have "schema_mismatches ?a =
        concat (map (mismatch_of (schema_dict schema1) (schema_dict schema2))
                    (sorted_list_of_set (common_columns ?a)))"
    by (simp add: analyze_schemas_def Let_def)
  then show ?thesis using fin by (auto simp: set_mismatch_of)
qed

lemma schema_dict_distinct:
  "distinct (map fst schema) \<Longrightarrow> schema_dict schema c = Some t \<longleftrightarrow> (c, t) \<in> set schema"
  by (simp add: schema_dict_def rev_map[symmetric])

text \<open>
  C3. When a column subset is specified, every specified name (a comma-separated
  segment, trimmed) that is missing from the first or from the second schema is in
  \<^verbatim>\<open>missing_specified_cols\<close> and not in \<^verbatim>\<open>common_columns\<close>. The flag
  \<^verbatim>\<open>schemas_identical\<close> is the conjunction of: the schemas have equally many columns,
  the list of type mismatches is empty, and no subset is specified. So a specified
  subset makes the flag false. The parts of the result are tied to the schemas:
  \<^verbatim>\<open>common_columns\<close> is the set of the names of both schemas, cut down to the specified
  names when a subset is specified; \<^verbatim>\<open>missing_specified_cols\<close> is the set of the other
  specified names; and the type mismatches are exactly the common columns with their
  two types, where these differ.
\<close>

theorem analyze_schemas_subset_and_flag:
  "(truthy sc \<longrightarrow>
      (\<forall>name\<in>set (map strip (split_str (CHR '','') (fmt sc))).
         name \<notin> set (map fst schema1) \<or> name \<notin> set (map fst schema2) \<longrightarrow>
         name \<in> missing_specified_cols (analyze_schemas schema1 schema2 sc) \<and>
         name \<notin> common_columns (analyze_schemas schema1 schema2 sc))) \<and>
   schemas_identical (analyze_schemas schema1 schema2 sc) =
     (length schema1 = length schema2 \<and>
      schema_mismatches (analyze_schemas schema1 schema2 sc) = [] \<and> \<not> truthy sc) \<and>
   (schema_mismatches (analyze_schemas schema1 schema2 sc) = [] \<longleftrightarrow>
      (\<forall>c\<in>common_columns (analyze_schemas schema1 schema2 sc).
         schema_dict schema1 c = schema_dict schema2 c)) \<and>
   (truthy sc \<longrightarrow> \<not> schemas_identical (analyze_schemas schema1 schema2 sc)) \<and>
   common_columns (analyze_schemas schema1 schema2 sc) =
     (if truthy sc
      then set (map strip (split_str (CHR '','') (fmt sc))) \<inter> set (map fst schema1) \<inter>
           set (map fst schema2)
      else set (map fst schema1) \<inter> set (map fst schema2)) \<and>
   missing_specified_cols (analyze_schemas schema1 schema2 sc) =
     (if truthy sc
      then set (map strip (split_str (CHR '','') (fmt sc))) -
           common_columns (analyze_schemas schema1 schema2 sc)
      else {}) \<and>
   only_in_table1 (analyze_schemas schema1 schema2 sc) =
     set (map fst schema1) - set (map fst schema2) \<and>
   only_in_table2 (analyze_schemas schema1 schema2 sc) =
     set (map fst schema2) - set (map fst schema1) \<and>
   set (schema_mismatches (analyze_schemas schema1 schema2 sc)) =
     {(c, t1, t2). c \<in> common_columns (analyze_schemas schema1 schema2 sc) \<and>
        schema_dict schema1 c = Some t1 \<and> schema_dict schema2 c = Some t2 \<and> t1 \<noteq> t2} \<and>
   (distinct (map fst schema1) \<and> distinct (map fst schema2) \<longrightarrow>
      set (schema_mismatches (analyze_schemas schema1 schema2 sc)) =
        {(c, t1, t2). c \<in> common_columns (analyze_schemas schema1 schema2 sc) \<and>
           (c, t1) \<in> set schema1 \<and> (c, t2) \<in> set schema2 \<and> t1 \<noteq> t2})"
proof -
  let ?a = "analyze_schemas schema1 schema2 sc"
  have flag: "schemas_identical ?a =
     (length schema1 = length schema2 \<and> schema_mismatches ?a = [] \<and> \<not> truthy sc)"
    by (simp add: analyze_schemas_def Let_def)
  have miss: "name \<in> missing_specified_cols ?a \<and> name \<notin> common_columns ?a"
    if "truthy sc" "name \<in> set (map strip (split_str (CHR '','') (fmt sc)))"
      "name \<notin> set (map fst schema1) \<or> name \<notin> set (map fst schema2)" for name
    using that by (auto simp: analyze_schemas_def Let_def)
  have missing: "missing_specified_cols ?a =
     (if truthy sc then set (map strip (split_str (CHR '','') (fmt sc))) - common_columns ?a
      else {})"
    by (simp add: analyze_schemas_def Let_def)
  have only: "only_in_table1 ?a = set (map fst schema1) - set (map fst schema2)"
    "only_in_table2 ?a = set (map fst schema2) - set (map fst schema1)"
    by (simp_all add: analyze_schemas_def Let_def)
  have dist: "set (schema_mismatches ?a) =
        {(c, t1, t2). c \<in> common_columns ?a \<and>
           (c, t1) \<in> set schema1 \<and> (c, t2) \<in> set schema2 \<and> t1 \<noteq> t2}"
    if "distinct (map fst schema1) \<and> distinct (map fst schema2)"
    using that by (simp add: set_schema_mismatches schema_dict_distinct)
  from flag miss missing only dist schema_mismatches_Nil_iff[of schema1 schema2 sc]
    common_columns_eq[of schema1 schema2 sc] set_schema_mismatches[of schema1 schema2 sc]
  show ?thesis by blast
qed

theorem analyze_schemas_subset_and_flag_witness:
  "truthy (Some ''a, zz'') \<and>
   ''zz'' \<in> set (map strip (split_str (CHR '','') ''a, zz'')) \<and>
   ''zz'' \<in> missing_specified_cols
      (analyze_schemas [(''a'', ''INT'')] [(''a'', ''INT'')] (Some ''a, zz'')) \<and>
   ''zz'' \<notin> common_columns
      (analyze_schemas [(''a'', ''INT'')] [(''a'', ''INT'')] (Some ''a, zz'')) \<and>
   \<not> schemas_identical (analyze_schemas [(''a'', ''INT'')] [(''a'', ''INT'')] (Some ''a'')) \<and>
   schemas_identical (analyze_schemas [(''a'', ''INT'')] [(''a'', ''INT'')] None) \<and>
   distinct (map fst [(''a'', ''INT'')]) \<and> distinct (map fst [(''a'', ''STRING'')]) \<and>
   common_columns (analyze_schemas [(''a'', ''INT'')] [(''a'', ''STRING'')] None) = {''a''} \<and>
   (''a'', ''INT'', ''STRING'') \<in>
     set (schema_mismatches (analyze_schemas [(''a'', ''INT'')] [(''a'', ''STRING'')] None)) \<and>
   \<not> schemas_identical (analyze_schemas [(''a'', ''INT'')] [(''a'', ''STRING'')] None)"
proof -
  have sp: "map strip (split_str (CHR '','') ''a, zz'') = [''a'', ''zz'']"
    by (simp add: split_str_def strip_def lstrip_def rstrip_def isspace_def)
  have same: "schema_dict [(''a'', ''INT'')] c = schema_dict [(''a'', ''INT'')] c" for c ..
  note subset = analyze_schemas_subset_and_flag
      [where sc = "Some ''a, zz''" and ?schema1.0 = "[(''a'', ''INT'')]"
         and ?schema2.0 = "[(''a'', ''INT'')]"]
  note narrowed = analyze_schemas_subset_and_flag
      [where sc = "Some ''a''" and ?schema1.0 = "[(''a'', ''INT'')]"
         and ?schema2.0 = "[(''a'', ''INT'')]"]
  note equal = analyze_schemas_subset_and_flag
      [where sc = "None" and ?schema1.0 = "[(''a'', ''INT'')]"
         and ?schema2.0 = "[(''a'', ''INT'')]"]
  note differ = analyze_schemas_subset_and_flag
      [where sc = "None" and ?schema1.0 = "[(''a'', ''INT'')]"
         and ?schema2.0 = "[(''a'', ''STRING'')]"]
  from subset sp have 1: "''zz'' \<in> missing_specified_cols
      (analyze_schemas [(''a'', ''INT'')] [(''a'', ''INT'')] (Some ''a, zz'')) \<and>
   ''zz'' \<notin> common_columns
      (analyze_schemas [(''a'', ''INT'')] [(''a'', ''INT'')] (Some ''a, zz''))"
    by simp
  from narrowed have 2:
    "\<not> schemas_identical (analyze_schemas [(''a'', ''INT'')] [(''a'', ''INT'')] (Some ''a''))"
    by simp
  from equal same have 3:
    "schemas_identical (analyze_schemas [(''a'', ''INT'')] [(''a'', ''INT'')] None)"
    by simp
  from differ have 4:
    "common_columns (analyze_schemas [(''a'', ''INT'')] [(''a'', ''STRING'')] None) = {''a''}"
    by simp
  have d: "distinct (map fst [(''a'', ''INT'')]) \<and> distinct (map fst [(''a'', ''STRING'')])"
    by simp
  from differ d have m:
    "set (schema_mismatches (analyze_schemas [(''a'', ''INT'')] [(''a'', ''STRING'')] None)) =
       {(c, t1, t2).
          c \<in> common_columns (analyze_schemas [(''a'', ''INT'')] [(''a'', ''STRING'')] None) \<and>
          (c, t1) \<in> set [(''a'', ''INT'')] \<and> (c, t2) \<in> set [(''a'', ''STRING'')] \<and>
          t1 \<noteq> t2}"
    by blast
  have 5: "(''a'', ''INT'', ''STRING'') \<in>
     set (schema_mismatches (analyze_schemas [(''a'', ''INT'')] [(''a'', ''STRING'')] None))"
    unfolding m 4 by simp
  then have "schema_mismatches (analyze_schemas [(''a'', ''INT'')] [(''a'', ''STRING'')] None)
      \<noteq> []"
    by auto
  with differ have 6:
    "\<not> schemas_identical (analyze_schemas [(''a'', ''INT'')] [(''a'', ''STRING'')] None)"
    by simp
  from sp 1 2 3 4 5 6 show ?thesis by simp
qed

subsection \<open>Table paths\<close>

lemma length_split_acc: "length (split_acc sep acc s) = Suc (count_list s sep)"
  by (induction s arbitrary: acc) auto

text \<open>
  C5 (amended). \<^verbatim>\<open>parse_table_path\<close> succeeds exactly when the path splits at its dots
  into three segments, that is, when it has exactly two dots; it then returns the three
  segments, whether empty or not. When either path of \<^verbatim>\<open>main\<close> fails to parse, the
  error is printed, the process exits with status 1 and no query is issued.
\<close>

theorem parse_table_path_three_segments:
  "((\<exists>r. parse_table_path p = Inr r) \<longleftrightarrow> length (split_str (CHR ''.'') p) = 3) \<and>
   length (split_str (CHR ''.'') p) = Suc (count_list p (CHR ''.'')) \<and>
   (length (split_str (CHR ''.'') p) = 3 \<longrightarrow>
      parse_table_path p =
        Inr (split_str (CHR ''.'') p ! 0, split_str (CHR ''.'') p ! 1,
             split_str (CHR ''.'') p ! 2)) \<and>
   (isl (parse_table_path (table1 a)) \<or> isl (parse_table_path (table2 a)) \<longrightarrow>
      issued (fst (main client sink a)) = [] \<and>
      snd (main client sink a) = Exited 1 \<and>
      (\<exists>e. printed (fst (main client sink a)) = [InputError e]))"
  by (auto simp: parse_table_path_def Let_def split_str_def length_split_acc main_def
      input_error_def split: sum.splits)

theorem parse_table_path_three_segments_witness:
  "length (split_str (CHR ''.'') ''p.d.t'') = 3 \<and>
   parse_table_path ''p.d.t'' = Inr (''p'', ''d'', ''t'') \<and>
   isl (parse_table_path ''p.d'') \<and>
   issued (fst (main (\<lambda>log q. Inl QueryFailed) (\<lambda>f rows. Inl OSError) \<lparr>table1 = ''p.d'', table2 = ''p.d.t'', where_clause = None,
      order_by_clause = None, specific_columns = None\<rparr>)) = [] \<and>
   snd (main (\<lambda>log q. Inl QueryFailed) (\<lambda>f rows. Inl OSError) \<lparr>table1 = ''p.d'', table2 = ''p.d.t'', where_clause = None,
      order_by_clause = None, specific_columns = None\<rparr>) = Exited 1"
  using parse_table_path_three_segments [where p = "''p.d.t''"
      and a = "\<lparr>table1 = ''p.d'', table2 = ''p.d.t'', where_clause = None,
      order_by_clause = None, specific_columns = None\<rparr>" and client = "\<lambda>log q. Inl QueryFailed"
      and sink = "\<lambda>f rows. Inl OSError"]
  by (simp add: split_str_def parse_table_path_def)

text \<open>
  C5 as stated asks for three non-empty segments; the code counts the segments only, so
  a path with an empty segment parses.
\<close>

theorem parse_table_path_empty_segment_counterexample:
  "parse_table_path ''a..b'' = Inr (''a'', [], ''b'') \<and>
   split_str (CHR ''.'') ''a..b'' = [''a'', [], ''b'']"
  by (simp add: parse_table_path_def split_str_def)

subsection \<open>Decimal digits and stripping of composed text\<close>

lemma digit_char_not_space: "d < 10 \<Longrightarrow> \<not> isspace (digit_char d)"
  by (simp add: isspace_def digit_char_def)

lemma str_of_nat_last: "str_of_nat n \<noteq> [] \<and> \<not> isspace (last (str_of_nat n))"
  by (subst (1 2) str_of_nat.simps) (simp add: digit_char_not_space)

lemma str_of_int_last: "str_of_int i \<noteq> [] \<and> \<not> isspace (last (str_of_int i))"
  using str_of_nat_last by (simp add: str_of_int_def)

lemma rstrip_ends_nonspace: "b \<noteq> [] \<Longrightarrow> \<not> isspace (last b) \<Longrightarrow> rstrip (a @ b) = a @ b"
  by (rule rstrip_noop) simp

lemma strip_front:
  "a \<noteq> [] \<Longrightarrow> \<not> isspace (hd a) \<Longrightarrow> \<not> isspace (last a) \<Longrightarrow> strip (a @ b) = a @ rstrip b"
  by (simp add: strip_def lstrip_noop rstrip_append rstrip_noop)

subsection \<open>Counting occurrences\<close>

lemma startswith_append_sep:
  "c \<notin> set p \<Longrightarrow> startswith (u @ c # b) p = startswith u p"
proof (cases "length p \<le> length u")
  case True
  then show ?thesis by (simp add: startswith_def)
next
  case False
  assume c: "c \<notin> set p"
  have "take (length p) (u @ c # b) \<noteq> p"
  proof
    assume "take (length p) (u @ c # b) = p"
    then have "p = u @ take (length p - length u) (c # b)" using False by simp
    moreover from False obtain k where "length p - length u = Suc k"
      by (cases "length p - length u") auto
    ultimately have "c \<in> set p" by (metis append_Cons in_set_conv_decomp take_Suc_Cons)
    with c show False by simp
  qed
  moreover have "take (length p) u \<noteq> p"
  proof
    assume "take (length p) u = p"
    then have "length (take (length p) u) = length p" by simp
    with False show False by simp
  qed
  ultimately show ?thesis by (simp add: startswith_def)
qed

lemma count_sub_Cons_sep: "p \<noteq> [] \<Longrightarrow> c \<notin> set p \<Longrightarrow> count_sub p (c # b) = count_sub p b"
  by (cases p) (auto simp: startswith_def)

lemma count_sub_append_sep:
  "p \<noteq> [] \<Longrightarrow> c \<notin> set p \<Longrightarrow> count_sub p (a @ c # b) = count_sub p a + count_sub p b"
proof (induction a)
  case Nil
  then show ?case by (simp add: count_sub_Cons_sep del: count_sub.simps(2))
next
  case (Cons x a)
  from Cons.prems have "startswith ((x # a) @ c # b) p = startswith (x # a) p"
    by (intro startswith_append_sep)
  with Cons show ?case by simp
qed

lemma count_sub_seps: "p \<noteq> [] \<Longrightarrow> set s \<inter> set p = {} \<Longrightarrow> count_sub p s = 0"
  by (induction s) (auto simp: count_sub_Cons_sep simp del: count_sub.simps(2))

lemma count_sub_append_seps:
  "p \<noteq> [] \<Longrightarrow> set b \<inter> set p = {} \<Longrightarrow> count_sub p (a @ b) = count_sub p a"
  by (cases b) (auto simp: count_sub_append_sep count_sub_seps simp del: count_sub.simps(2))

lemma count_sub_seps_append:
  "p \<noteq> [] \<Longrightarrow> set a \<inter> set p = {} \<Longrightarrow> count_sub p (a @ b) = count_sub p b"
  by (induction a) (auto simp: count_sub_Cons_sep simp del: count_sub.simps(2))

lemma rstrip_decomp: "s = rstrip s @ rev (takeWhile isspace (rev s))"
proof -
  have "rev (takeWhile isspace (rev s) @ dropWhile isspace (rev s)) = s" by simp
  then show ?thesis by (simp only: rev_append rstrip_def)
qed

lemma count_sub_rstrip:
  assumes "p \<noteq> []" "\<forall>c\<in>set p. \<not> isspace c"
  shows "count_sub p (rstrip s) = count_sub p s"
proof -
  have "set (rev (takeWhile isspace (rev s))) \<inter> set p = {}"
    using assms(2) by (auto dest: set_takeWhileD)
  from count_sub_append_seps[OF assms(1) this, of "rstrip s"] rstrip_decomp[of s]
  show ?thesis by simp
qed

lemma count_sub_lstrip:
  assumes "p \<noteq> []" "\<forall>c\<in>set p. \<not> isspace c"
  shows "count_sub p (lstrip s) = count_sub p s"
proof -
  have "set (takeWhile isspace s) \<inter> set p = {}"
    using assms(2) by (auto dest: set_takeWhileD)
  from count_sub_seps_append[OF assms(1) this, of "lstrip s"]
  show ?thesis by (simp add: lstrip_def)
qed

lemma str_of_nat_digits: "c \<in> set (str_of_nat n) \<Longrightarrow> 48 \<le> (of_char c :: nat) \<and> (of_char c :: nat) \<le> 57"
proof (induction n rule: str_of_nat.induct)
  case (1 n)
  show ?case
  proof (cases "n < 10")
    case True
    with "1.prems" have "c = digit_char n" by (subst (asm) str_of_nat.simps) simp
    with True show ?thesis by (simp add: digit_char_def)
  next
    case False
    with "1.prems" have "c \<in> set (str_of_nat (n div 10)) \<or> c = digit_char (n mod 10)"
      by (subst (asm) str_of_nat.simps) auto
    then show ?thesis
    proof
      assume "c \<in> set (str_of_nat (n div 10))"
      with False "1.IH" show ?thesis by simp
    next
      assume "c = digit_char (n mod 10)"
      moreover have "n mod 10 < 10" by simp
      ultimately show ?thesis by (simp add: digit_char_def)
    qed
  qed
qed

lemma str_of_int_chars: "c \<in> set (str_of_int i) \<Longrightarrow> 45 \<le> (of_char c :: nat) \<and> (of_char c :: nat) \<le> 57"
  using str_of_nat_digits by (fastforce simp: str_of_int_def split: if_splits)

lemma str_of_int_no_LIMIT: "set (str_of_int i) \<inter> set ''LIMIT'' = {}"
  using str_of_int_chars[of _ i] by fastforce

lemma limit_part_count: "truthy_int lim \<Longrightarrow> count_sub ''LIMIT'' (limit_part lim) = 1"
  using count_sub_seps[OF _ str_of_int_no_LIMIT]
  by (cases lim) (simp_all add: limit_part_def startswith_def)

subsection \<open>The set-difference query\<close>

lemma wrapped_ends:
  "wrapped t1 t2 cols w lab \<noteq> []"
  "\<not> isspace (hd (wrapped t1 t2 cols w lab))"
  "\<not> isspace (last (wrapped t1 t2 cols w lab))"
  by (simp_all add: wrapped_def outer_select_def isspace_def)

lemma build_wrapped:
  "truthy lab \<or> truthy ob \<Longrightarrow>
   build_except_distinct_query t1 t2 cols w ob lim lab =
     wrapped t1 t2 cols w lab @ rstrip (order_part ob @ limit_part lim)"
proof -
  assume a: "truthy lab \<or> truthy ob"
  then have "build_except_distinct_query t1 t2 cols w ob lim lab =
     strip (wrapped t1 t2 cols w lab @ (order_part ob @ limit_part lim))"
    by (simp add: build_except_distinct_query_def Let_def wrapped_def order_part_def
        limit_part_def)
  then show ?thesis by (simp only: strip_front[OF wrapped_ends])
qed

lemma build_unwrapped:
  "\<not> truthy lab \<Longrightarrow> \<not> truthy ob \<Longrightarrow>
   build_except_distinct_query t1 t2 cols w ob lim lab =
     strip (except_query t1 t2 cols w @ limit_part lim)"
  by (simp add: build_except_distinct_query_def Let_def limit_part_def)

lemma limit_part_ends:
  "truthy_int lim \<Longrightarrow> limit_part lim \<noteq> [] \<and> \<not> isspace (last (limit_part lim))"
  using str_of_int_last by (cases lim) (auto simp: limit_part_def)

lemma lstrip_except_query:
  "lstrip (except_query t1 t2 cols w) =
     ''SELECT '' @ cols @ '' FROM '' @ t1 @ where_part w @
     ''\<newline>EXCEPT DISTINCT\<newline>SELECT '' @ cols @ '' FROM '' @ t2 @ where_part w"
  by (simp add: except_query_def lstrip_def isspace_def)

lemma strip_with_limit:
  assumes "lstrip q \<noteq> []" "truthy_int lim"
  shows "strip (q @ limit_part lim) = lstrip q @ limit_part lim"
proof -
  have "lstrip (q @ limit_part lim) = lstrip q @ limit_part lim"
    using assms(1) by (simp add: lstrip_append)
  moreover have "rstrip (lstrip q @ limit_part lim) = lstrip q @ limit_part lim"
    using limit_part_ends[OF assms(2)] by (intro rstrip_ends_nonspace) auto
  ultimately show ?thesis by (simp add: strip_def)
qed

text \<open>
  C2. With a label (\<^verbatim>\<open>add_source_column\<close> passing the truth test), with or without an
  ordering clause, the text is one projection \<^verbatim>\<open>SELECT *, 'label' as source_table FROM (\<close>,
  the inner query, a closing parenthesis, and then the ordering and limit clauses if
  any. With an ordering clause and no label it is one \<^verbatim>\<open>SELECT * FROM (\<close>, the inner
  query, a closing parenthesis, and the ordering clause after it. With neither, it is
  the inner query, not wrapped. The inner query is in each case the two selections
  joined by \<^verbatim>\<open>EXCEPT DISTINCT\<close>, so no wrap is nested in another.
\<close>

theorem build_except_distinct_query_wrapping:
  "(truthy lab \<longrightarrow>
      build_except_distinct_query t1 t2 cols w ob lim lab =
        ''SELECT *, '' @ [quote] @ fmt lab @ [quote] @ '' as source_table FROM ('' @
        except_query t1 t2 cols w @ '')'' @
        rstrip ((if truthy ob then '' '' @ fmt ob else []) @
                (if truthy_int lim then '' LIMIT '' @ fmt_int lim else []))) \<and>
   (\<not> truthy lab \<and> truthy ob \<longrightarrow>
      build_except_distinct_query t1 t2 cols w ob lim lab =
        ''SELECT * FROM ('' @ except_query t1 t2 cols w @ '')'' @
        rstrip ('' '' @ fmt ob @ (if truthy_int lim then '' LIMIT '' @ fmt_int lim else []))) \<and>
   (\<not> truthy lab \<and> \<not> truthy ob \<longrightarrow>
      build_except_distinct_query t1 t2 cols w ob lim lab =
        strip (except_query t1 t2 cols w @
               (if truthy_int lim then '' LIMIT '' @ fmt_int lim else []))) \<and>
   build_except_distinct_query t1 t2 cols w None None None =
     strip (except_query t1 t2 cols w) \<and>
   except_query t1 t2 cols w =
     ''\<newline>SELECT '' @ cols @ '' FROM '' @ t1 @ where_part w @
     ''\<newline>EXCEPT DISTINCT\<newline>SELECT '' @ cols @ '' FROM '' @ t2 @ where_part w"
  using build_wrapped[of lab ob t1 t2 cols w lim] build_unwrapped[of lab ob t1 t2 cols w lim]
    build_unwrapped[of None None t1 t2 cols w None]
  by (simp add: wrapped_def outer_select_def order_part_def limit_part_def except_query_def)


theorem build_except_distinct_query_wrapping_witness:
  "truthy (Some ''exclusive_to_A'') \<and>
   build_except_distinct_query ''A'' ''B'' ''a, b'' None None None (Some ''exclusive_to_A'') =
     ''SELECT *, '' @ [quote] @ ''exclusive_to_A'' @ [quote] @
     '' as source_table FROM (\<newline>SELECT a, b FROM A\<newline>EXCEPT DISTINCT\<newline>SELECT a, b FROM B)'' \<and>
   build_except_distinct_query ''A'' ''B'' ''a, b'' None (Some ''order by a'') None None =
     ''SELECT * FROM (\<newline>SELECT a, b FROM A\<newline>EXCEPT DISTINCT\<newline>SELECT a, b FROM B) order by a'' \<and>
   build_except_distinct_query ''A'' ''B'' ''a, b'' None None None None =
     ''SELECT a, b FROM A\<newline>EXCEPT DISTINCT\<newline>SELECT a, b FROM B''"
  using build_except_distinct_query_wrapping
      [where lab = "Some ''exclusive_to_A''" and ?t1.0 = "''A''" and ?t2.0 = "''B''"
         and cols = "''a, b''" and w = None and ob = None and lim = None]
    build_except_distinct_query_wrapping
      [where lab = None and ?t1.0 = "''A''" and ?t2.0 = "''B''"
         and cols = "''a, b''" and w = None and ob = "Some ''order by a''" and lim = None]
    build_except_distinct_query_wrapping
      [where lab = None and ?t1.0 = "''A''" and ?t2.0 = "''B''"
         and cols = "''a, b''" and w = None and ob = None and lim = None]
  by (simp add: where_part_def strip_def lstrip_def rstrip_def isspace_def)

lemma count_sub_except_query:
  assumes "count_sub ''LIMIT'' t1 = 0" "count_sub ''LIMIT'' t2 = 0"
    "count_sub ''LIMIT'' cols = 0" "truthy w \<longrightarrow> count_sub ''LIMIT'' (fmt w) = 0"
  shows "count_sub ''LIMIT'' (except_query t1 t2 cols w) = 0"
  using assms
  by (simp add: except_query_def where_part_def count_sub_append_sep startswith_def)



lemma LIMIT_no_space: "\<forall>c\<in>set ''LIMIT''. \<not> isspace c"
  by (simp add: isspace_def)

lemma build_base:
  "build_except_distinct_query t1 t2 cols w ob lim lab =
     strip (base_query t1 t2 cols w ob lab @ limit_part lim)"
  by (simp add: build_except_distinct_query_def Let_def base_query_def wrapped_def
      order_part_def limit_part_def)

lemma lstrip_wrapped: "lstrip (wrapped t1 t2 cols w lab @ x) = wrapped t1 t2 cols w lab @ x"
  using wrapped_ends[of t1 t2 cols w lab] by (intro lstrip_noop) simp

lemma lstrip_base_query:
  "lstrip (base_query t1 t2 cols w ob lab) =
     (if truthy lab \<or> truthy ob then wrapped t1 t2 cols w lab @ order_part ob
      else lstrip (except_query t1 t2 cols w))"
  by (simp add: base_query_def lstrip_wrapped)

lemma lstrip_base_query_ne: "lstrip (base_query t1 t2 cols w ob lab) \<noteq> []"
  using wrapped_ends(1)[of t1 t2 cols w lab]
  by (simp add: lstrip_base_query lstrip_except_query)

lemma build_with_limit:
  "truthy_int lim \<Longrightarrow>
   build_except_distinct_query t1 t2 cols w ob lim lab =
     lstrip (base_query t1 t2 cols w ob lab) @ limit_part lim"
  by (simp add: build_base strip_with_limit lstrip_base_query_ne)

lemma build_without_limit:
  "\<not> truthy_int lim \<Longrightarrow>
   build_except_distinct_query t1 t2 cols w ob lim lab =
     rstrip (lstrip (base_query t1 t2 cols w ob lab))"
  by (simp add: build_base limit_part_def strip_def)

lemma count_sub_base_query:
  assumes "count_sub ''LIMIT'' t1 = 0" "count_sub ''LIMIT'' t2 = 0"
    "count_sub ''LIMIT'' cols = 0" "truthy w \<longrightarrow> count_sub ''LIMIT'' (fmt w) = 0"
    "truthy ob \<longrightarrow> count_sub ''LIMIT'' (fmt ob) = 0"
    "truthy lab \<longrightarrow> count_sub ''LIMIT'' (fmt lab) = 0"
  shows "count_sub ''LIMIT'' (base_query t1 t2 cols w ob lab) = 0"
proof -
  have e: "count_sub ''LIMIT'' (except_query t1 t2 cols w) = 0"
    using assms(1-4) by (rule count_sub_except_query)
  have o: "count_sub ''LIMIT'' (outer_select lab) = 0"
    using assms(6)
    by (simp add: outer_select_def quote_def count_sub_append_sep startswith_def)
  have w: "count_sub ''LIMIT'' (wrapped t1 t2 cols w lab) = 0"
    using e o count_sub_append_sep[of "''LIMIT''" "CHR '' ''" "outer_select lab"
        "''FROM ('' @ except_query t1 t2 cols w @ '')''"]
      count_sub_append_sep[of "''LIMIT''" "CHR '')''" "except_query t1 t2 cols w" "[]"]
    by (simp add: wrapped_def startswith_def)
  have "count_sub ''LIMIT'' (wrapped t1 t2 cols w lab @ order_part ob) = 0"
    using w assms(5) count_sub_append_sep[of "''LIMIT''" "CHR '' ''" "wrapped t1 t2 cols w lab" "fmt ob"]
    by (simp add: order_part_def)
  with e show ?thesis by (simp add: base_query_def)
qed

text \<open>
  C10. A limit alone does not wrap: with a limit, no label and no ordering clause the
  text is the inner query followed by the \<^verbatim>\<open>LIMIT\<close> clause. When the query is wrapped,
  the \<^verbatim>\<open>LIMIT\<close> clause comes last, after the ordering clause. A limit that fails the truth
  test (\<^verbatim>\<open>None\<close> or 0) adds nothing. With a limit the text is the text without it (up
  to trailing whitespace) followed by one \<^verbatim>\<open>LIMIT\<close> clause; so the limit adds exactly one
  occurrence of \<^verbatim>\<open>LIMIT\<close>, and when none of the interpolated strings contains \<^verbatim>\<open>LIMIT\<close>
  the text contains it once with a limit and not at all without.
\<close>

theorem limit_appended_last:
  "(\<not> truthy lab \<and> \<not> truthy ob \<and> truthy_int lim \<longrightarrow>
      build_except_distinct_query t1 t2 cols w ob lim lab =
        ''SELECT '' @ cols @ '' FROM '' @ t1 @ where_part w @
        ''\<newline>EXCEPT DISTINCT\<newline>SELECT '' @ cols @ '' FROM '' @ t2 @ where_part w @
        '' LIMIT '' @ fmt_int lim) \<and>
   ((truthy lab \<or> truthy ob) \<and> truthy_int lim \<longrightarrow>
      build_except_distinct_query t1 t2 cols w ob lim lab =
        outer_select lab @ '' FROM ('' @ except_query t1 t2 cols w @ '')'' @
        (if truthy ob then '' '' @ fmt ob else []) @ '' LIMIT '' @ fmt_int lim) \<and>
   (\<not> truthy_int lim \<longrightarrow>
      build_except_distinct_query t1 t2 cols w ob lim lab =
        build_except_distinct_query t1 t2 cols w ob None lab) \<and>
   (truthy_int lim \<longrightarrow>
      (\<exists>body. build_except_distinct_query t1 t2 cols w ob lim lab =
                 body @ '' LIMIT '' @ fmt_int lim \<and>
               build_except_distinct_query t1 t2 cols w ob None lab = rstrip body)) \<and>
   count_sub ''LIMIT'' (build_except_distinct_query t1 t2 cols w ob lim lab) =
     count_sub ''LIMIT'' (build_except_distinct_query t1 t2 cols w ob None lab) +
     (if truthy_int lim then 1 else 0) \<and>
   (count_sub ''LIMIT'' t1 = 0 \<and> count_sub ''LIMIT'' t2 = 0 \<and> count_sub ''LIMIT'' cols = 0 \<and>
    (truthy w \<longrightarrow> count_sub ''LIMIT'' (fmt w) = 0) \<and>
    (truthy ob \<longrightarrow> count_sub ''LIMIT'' (fmt ob) = 0) \<and>
    (truthy lab \<longrightarrow> count_sub ''LIMIT'' (fmt lab) = 0) \<longrightarrow>
    count_sub ''LIMIT'' (build_except_distinct_query t1 t2 cols w ob lim lab) =
      (if truthy_int lim then 1 else 0))"
proof -
  let ?b = "base_query t1 t2 cols w ob lab"
  let ?build = "build_except_distinct_query t1 t2 cols w ob"
  have none: "?build None lab = rstrip (lstrip ?b)"
    by (simp add: build_without_limit)
  have unlimited: "?build lim lab = ?build None lab" if "\<not> truthy_int lim"
    using that by (simp add: build_without_limit)
  have limited: "?build lim lab = lstrip ?b @ '' LIMIT '' @ fmt_int lim" if "truthy_int lim"
    using that by (simp add: build_with_limit limit_part_def)
  have cnt_none: "count_sub ''LIMIT'' (?build None lab) = count_sub ''LIMIT'' ?b"
    using LIMIT_no_space by (simp add: none count_sub_rstrip count_sub_lstrip)
  have cnt: "count_sub ''LIMIT'' (?build lim lab) =
      count_sub ''LIMIT'' ?b + (if truthy_int lim then 1 else 0)"
  proof (cases "truthy_int lim")
    case True
    have "count_sub ''LIMIT'' (lstrip ?b @ limit_part lim) =
          count_sub ''LIMIT'' (lstrip ?b) + count_sub ''LIMIT'' (tl (limit_part lim))"
      using True count_sub_append_sep[of "''LIMIT''" "CHR '' ''" "lstrip ?b" "tl (limit_part lim)"]
      by (simp add: limit_part_def)
    moreover have "count_sub ''LIMIT'' (tl (limit_part lim)) = 1"
      using limit_part_count[OF True] True by (simp add: limit_part_def startswith_def)
    ultimately show ?thesis
      using True LIMIT_no_space by (simp add: build_with_limit count_sub_lstrip)
  next
    case False
    then show ?thesis using cnt_none by (simp add: unlimited)
  qed
  have c1: "\<not> truthy lab \<and> \<not> truthy ob \<and> truthy_int lim \<longrightarrow>
      ?build lim lab =
        ''SELECT '' @ cols @ '' FROM '' @ t1 @ where_part w @
        ''\<newline>EXCEPT DISTINCT\<newline>SELECT '' @ cols @ '' FROM '' @ t2 @ where_part w @
        '' LIMIT '' @ fmt_int lim"
    using limited by (simp add: lstrip_base_query lstrip_except_query)
  have c2: "(truthy lab \<or> truthy ob) \<and> truthy_int lim \<longrightarrow>
      ?build lim lab =
        outer_select lab @ '' FROM ('' @ except_query t1 t2 cols w @ '')'' @
        (if truthy ob then '' '' @ fmt ob else []) @ '' LIMIT '' @ fmt_int lim"
    using limited by (auto simp: lstrip_base_query wrapped_def order_part_def)
  have c4: "truthy_int lim \<longrightarrow>
      (\<exists>body. ?build lim lab = body @ '' LIMIT '' @ fmt_int lim \<and>
               ?build None lab = rstrip body)"
    using limited none by blast
  have c6: "count_sub ''LIMIT'' (?build lim lab) = (if truthy_int lim then 1 else 0)"
    if "count_sub ''LIMIT'' t1 = 0 \<and> count_sub ''LIMIT'' t2 = 0 \<and> count_sub ''LIMIT'' cols = 0 \<and>
    (truthy w \<longrightarrow> count_sub ''LIMIT'' (fmt w) = 0) \<and>
    (truthy ob \<longrightarrow> count_sub ''LIMIT'' (fmt ob) = 0) \<and>
    (truthy lab \<longrightarrow> count_sub ''LIMIT'' (fmt lab) = 0)"
    using that cnt count_sub_base_query[of t1 t2 cols w ob lab] by simp
  from c1 c2 unlimited c4 cnt cnt_none c6 show ?thesis by simp
qed


theorem limit_appended_last_witness:
  "truthy_int (Some 10) \<and> \<not> truthy_int (Some 0) \<and>
   build_except_distinct_query ''A'' ''B'' ''a, b'' None None (Some 10) None =
     ''SELECT a, b FROM A\<newline>EXCEPT DISTINCT\<newline>SELECT a, b FROM B LIMIT 10'' \<and>
   build_except_distinct_query ''A'' ''B'' ''a, b'' None (Some ''order by a'') (Some 10) None =
     ''SELECT * FROM (\<newline>SELECT a, b FROM A\<newline>EXCEPT DISTINCT\<newline>SELECT a, b FROM B) order by a LIMIT 10'' \<and>
   build_except_distinct_query ''A'' ''B'' ''a, b'' None None (Some 0) None =
     build_except_distinct_query ''A'' ''B'' ''a, b'' None None None None \<and>
   count_sub ''LIMIT''
     (build_except_distinct_query ''A'' ''B'' ''a, b'' None (Some ''order by a'') (Some 10) None) = 1"
  using limit_appended_last
      [where lab = None and ?t1.0 = "''A''" and ?t2.0 = "''B''" and cols = "''a, b''"
         and w = None and ob = None and lim = "Some 10"]
    limit_appended_last
      [where lab = None and ?t1.0 = "''A''" and ?t2.0 = "''B''" and cols = "''a, b''"
         and w = None and ob = "Some ''order by a''" and lim = "Some 10"]
    limit_appended_last
      [where lab = None and ?t1.0 = "''A''" and ?t2.0 = "''B''" and cols = "''a, b''"
         and w = None and ob = None and lim = "Some 0"]
  by (simp add: where_part_def outer_select_def except_query_def str_of_int_def
      str_of_nat.simps digit_char_def char_of_def bit_Suc_0_iff startswith_def)

subsection \<open>Runs of the comparison\<close>

text \<open>Each call of the comparator issues exactly one query, whatever its outcome.\<close>

lemma get_table_schema_issued:
  "get_table_schema client p d n s = (r, s') \<Longrightarrow>
   s' = s\<lparr>issued := issued s @ [schema_query p d n]\<rparr>"
  by (auto simp: get_table_schema_def bind_io_def client_query_def lift_io_def
      split: sum.splits)

lemma get_row_count_issued:
  "get_row_count client t w s = (r, s') \<Longrightarrow>
   s' = s\<lparr>issued := issued s @ [build_row_count_query t w]\<rparr>"
  by (auto simp: get_row_count_def bind_io_def client_query_def lift_io_def
      split: sum.splits)

lemma check_data_differences_issued:
  "check_data_differences client t1 t2 cols w s = (r, s') \<Longrightarrow>
   s' = s\<lparr>issued := issued s @ [exists_query t1 t2 cols w]\<rparr>"
  by (auto simp: check_data_differences_def bind_io_def client_query_def lift_io_def
      split: sum.splits)

lemma scripted_schema:
  assumes "length (issued s) < length answers"
    and "answers ! length (issued s) =
           Inr [[(''column_name'', VStr a), (''data_type'', VStr t)]]"
  shows "get_table_schema (scripted_client answers) p d n s =
           (Inr [(a, t)], s\<lparr>issued := issued s @ [schema_query p d n]\<rparr>)"
  using assms
  by (simp add: get_table_schema_def bind_io_def client_query_def lift_io_def
      scripted_client_def attr_def as_str_def)

lemma scripted_count:
  assumes "length (issued s) < length answers"
    and "answers ! length (issued s) = Inr [[(''count'', v)]]"
  shows "get_row_count (scripted_client answers) t w s =
           (Inr v, s\<lparr>issued := issued s @ [build_row_count_query t w]\<rparr>)"
  using assms
  by (simp add: get_row_count_def bind_io_def client_query_def lift_io_def
      scripted_client_def attr_def next_row_def)

lemma scripted_check:
  assumes "length (issued s) < length answers"
    and "answers ! length (issued s) = Inr [[(''has_differences'', v)]]"
  shows "check_data_differences (scripted_client answers) t1 t2 cols w s =
           (Inr v, s\<lparr>issued := issued s @ [exists_query t1 t2 cols w]\<rparr>)"
  using assms
  by (simp add: check_data_differences_def bind_io_def client_query_def lift_io_def
      scripted_client_def attr_def next_row_def)

text \<open>
  C8. When both schemas are read and the computed set of common columns is empty, the
  run ends after the two schema queries: no row count, existence check, sample or
  export query is issued. The only message is the one for "no common columns" (neither
  the pass nor the fail verdict, nor the error message), and the function returns
  instead of exiting the process.
\<close>

theorem no_common_columns_stops_run:
  assumes "get_table_schema client p1 d1 n1 \<lparr>issued = [], printed = []\<rparr> = (Inr schema1, s1)"
    and "get_table_schema client p2 d2 n2 s1 = (Inr schema2, s2)"
    and "common_columns (analyze_schemas schema1 schema2 sc) = {}"
  shows "execute_comparison client sink t1f t2f p1 d1 n1 p2 d2 n2 wc oc sc =
           (\<lparr>issued = [schema_query p1 d1 n1, schema_query p2 d2 n2],
             printed = [NoCommonColumns]\<rparr>, Returned)"
proof -
  from get_table_schema_issued[OF assms(1)]
  have s1: "s1 = \<lparr>issued = [schema_query p1 d1 n1], printed = []\<rparr>" by simp
  from get_table_schema_issued[OF assms(2)] s1
  have s2: "s2 = \<lparr>issued = [schema_query p1 d1 n1, schema_query p2 d2 n2], printed = []\<rparr>"
    by simp
  show ?thesis
    unfolding execute_comparison_def comparison_body_def Let_def
    by (simp add: bind_io_def assms print_io_def s2)
qed

theorem no_common_columns_stops_run_witness:
  "common_columns (analyze_schemas [(''a'', ''INT'')] [(''b'', ''INT'')] None) = {} \<and>
   execute_comparison
     (scripted_client [Inr [[(''column_name'', VStr ''a''), (''data_type'', VStr ''INT'')]],
                       Inr [[(''column_name'', VStr ''b''), (''data_type'', VStr ''INT'')]]])
     (\<lambda>f rows. Inr ()) ''p.d.t1'' ''p.d.t2'' ''p'' ''d'' ''t1'' ''p'' ''d'' ''t2'' None None None =
   (\<lparr>issued = [schema_query ''p'' ''d'' ''t1'', schema_query ''p'' ''d'' ''t2''],
     printed = [NoCommonColumns]\<rparr>, Returned)"
proof -
  let ?c = "scripted_client
     [Inr [[(''column_name'', VStr ''a''), (''data_type'', VStr ''INT'')]],
      Inr [[(''column_name'', VStr ''b''), (''data_type'', VStr ''INT'')]]]"
  let ?s0 = "\<lparr>issued = [], printed = []\<rparr>"
  let ?s1 = "?s0\<lparr>issued := issued ?s0 @ [schema_query ''p'' ''d'' ''t1'']\<rparr>"
  let ?s2 = "?s1\<lparr>issued := issued ?s1 @ [schema_query ''p'' ''d'' ''t2'']\<rparr>"
  have h1: "get_table_schema ?c ''p'' ''d'' ''t1'' ?s0 = (Inr [(''a'', ''INT'')], ?s1)"
    by (rule scripted_schema) simp_all
  have h2: "get_table_schema ?c ''p'' ''d'' ''t2'' ?s1 = (Inr [(''b'', ''INT'')], ?s2)"
    by (rule scripted_schema) simp_all
  have h3: "common_columns (analyze_schemas [(''a'', ''INT'')] [(''b'', ''INT'')] None) = {}"
    by (simp add: analyze_schemas_def)
  from no_common_columns_stops_run[OF h1 h2 h3, where sink = "\<lambda>f rows. Inr ()"] h3
  show ?thesis by simp
qed

text \<open>
  C1. Take a run that reaches the detection step: both schemas are read, there is a
  common column, both row counts are read and printed, and the existence check answers
  with a value \<open>has_differences\<close>. Up to there five queries are issued and no verdict is
  printed. If the value fails the truth test, the verdict is PASS, no further query is
  issued, the sink is not used and the function returns. If it passes the truth test,
  the verdict is FAIL and the next queries are, in this order, the sample of the rows
  of the first table that are not in the second, the sample for the other direction
  (each ends with \<^verbatim>\<open>LIMIT 10\<close>), and the export query, the union of the two labelled
  set-difference queries, whose rows, when there are any, go to the sink under the name
  \<^verbatim>\<open>table_row_differences.csv\<close>. A query is issued only when the ones before it have
  been answered; a failing query or a failing sink ends the run with the error message
  and exit status 1.
\<close>

theorem differences_gate_samples_and_export:
  assumes "w = normalize_where_clause wc" and "ob = normalize_order_by_clause oc"
    and "get_table_schema client p1 d1 n1 \<lparr>issued = [], printed = []\<rparr> = (Inr schema1, s1)"
    and "get_table_schema client p2 d2 n2 s1 = (Inr schema2, s2)"
    and "common_columns (analyze_schemas schema1 schema2 sc) \<noteq> {}"
    and "get_row_count client t1f w s2 = (Inr count1, s3)"
    and "get_row_count client t2f w s3 = (Inr count2, s4)"
    and "format_count count1 s4 = (Inr (), s4)"
    and "format_count count2 s4 = (Inr (), s4)"
    and "cols = build_column_list sc (Some (common_columns (analyze_schemas schema1 schema2 sc)))"
    and "check_data_differences client t1f t2f cols w s4 = (Inr has_differences, s5)"
    and "q1 = build_except_distinct_query t1f t2f cols w ob (Some 10) None"
    and "q2 = build_except_distinct_query t2f t1f cols w ob (Some 10) None"
    and "qe = build_union_query
                [build_except_distinct_query t1f t2f cols w None None
                   (Some (''exclusive_to_'' @ n1)),
                 build_except_distinct_query t2f t1f cols w None None
                   (Some (''exclusive_to_'' @ n2))] ob"
  shows
    "s5 = \<lparr>issued = [schema_query p1 d1 n1, schema_query p2 d2 n2,
                      build_row_count_query t1f w, build_row_count_query t2f w,
                      exists_query t1f t2f cols w],
            printed = []\<rparr> \<and>
     (\<not> truthy_val has_differences \<longrightarrow>
        execute_comparison client sink t1f t2f p1 d1 n1 p2 d2 n2 wc oc sc =
          (\<lparr>issued = issued s5, printed = [TestPass]\<rparr>, Returned)) \<and>
     (truthy_val has_differences \<longrightarrow>
        execute_comparison client sink t1f t2f p1 d1 n1 p2 d2 n2 wc oc sc =
          (case client (issued s5) q1 of
             Inl e \<Rightarrow> (\<lparr>issued = issued s5 @ [q1], printed = [TestFail, ErrorExecuting]\<rparr>,
                       Exited 1)
           | Inr result1 \<Rightarrow>
               (case client (issued s5 @ [q1]) q2 of
                  Inl e \<Rightarrow> (\<lparr>issued = issued s5 @ [q1, q2],
                              printed = [TestFail, ErrorExecuting]\<rparr>, Exited 1)
                | Inr result2 \<Rightarrow>
                    (case client (issued s5 @ [q1, q2]) qe of
                       Inl e \<Rightarrow> (\<lparr>issued = issued s5 @ [q1, q2, qe],
                                   printed = [TestFail, ErrorExecuting]\<rparr>, Exited 1)
                     | Inr rows \<Rightarrow>
                         (case (if rows \<noteq> [] then sink ''table_row_differences.csv'' rows
                                else Inr ()) of
                            Inl e \<Rightarrow> (\<lparr>issued = issued s5 @ [q1, q2, qe],
                                        printed = [TestFail, ErrorExecuting]\<rparr>, Exited 1)
                          | Inr u \<Rightarrow> (\<lparr>issued = issued s5 @ [q1, q2, qe],
                                        printed = [TestFail]\<rparr>, Returned)))))) \<and>
     (\<exists>body1 body2. q1 = body1 @ '' LIMIT 10'' \<and> q2 = body2 @ '' LIMIT 10'')"
proof -
  from get_table_schema_issued[OF assms(3)]
  have s1: "s1 = \<lparr>issued = [schema_query p1 d1 n1], printed = []\<rparr>" by simp
  from get_table_schema_issued[OF assms(4)] s1
  have s2: "s2 = \<lparr>issued = [schema_query p1 d1 n1, schema_query p2 d2 n2], printed = []\<rparr>"
    by simp
  from get_row_count_issued[OF assms(6)] s2
  have s3: "s3 = \<lparr>issued = [schema_query p1 d1 n1, schema_query p2 d2 n2,
                      build_row_count_query t1f w], printed = []\<rparr>"
    by simp
  from get_row_count_issued[OF assms(7)] s3
  have s4: "s4 = \<lparr>issued = [schema_query p1 d1 n1, schema_query p2 d2 n2,
                      build_row_count_query t1f w, build_row_count_query t2f w],
                   printed = []\<rparr>"
    by simp
  from check_data_differences_issued[OF assms(11)] s4
  have s5: "s5 = \<lparr>issued = [schema_query p1 d1 n1, schema_query p2 d2 n2,
                      build_row_count_query t1f w, build_row_count_query t2f w,
                      exists_query t1f t2f cols w], printed = []\<rparr>"
    by simp
  have body: "comparison_body client sink t1f t2f p1 d1 n1 p2 d2 n2 w ob sc
                \<lparr>issued = [], printed = []\<rparr> =
      (if \<not> truthy_val has_differences then print_io TestPass s5
       else bind_io (print_io TestFail) (\<lambda>_.
            bind_io (get_sample_differences client t1f t2f cols w ob 10) (\<lambda>samples.
            bind_io (export_all_differences client sink t1f t2f n1 n2 cols
                       ''table_row_differences.csv'' w ob) (\<lambda>total_diffs.
            return_io ()))) s5)"
    by (simp add: comparison_body_def Let_def bind_io_def assms(3,4,5,6,7,8,9,11)
        assms(10)[symmetric])
  have pass: "execute_comparison client sink t1f t2f p1 d1 n1 p2 d2 n2 wc oc sc =
          (\<lparr>issued = issued s5, printed = [TestPass]\<rparr>, Returned)"
    if "\<not> truthy_val has_differences"
    using that body assms(1,2)
    by (simp add: execute_comparison_def print_io_def s5)
  have fail: "execute_comparison client sink t1f t2f p1 d1 n1 p2 d2 n2 wc oc sc =
          (case client (issued s5) q1 of
             Inl e \<Rightarrow> (\<lparr>issued = issued s5 @ [q1], printed = [TestFail, ErrorExecuting]\<rparr>,
                       Exited 1)
           | Inr result1 \<Rightarrow>
               (case client (issued s5 @ [q1]) q2 of
                  Inl e \<Rightarrow> (\<lparr>issued = issued s5 @ [q1, q2],
                              printed = [TestFail, ErrorExecuting]\<rparr>, Exited 1)
                | Inr result2 \<Rightarrow>
                    (case client (issued s5 @ [q1, q2]) qe of
                       Inl e \<Rightarrow> (\<lparr>issued = issued s5 @ [q1, q2, qe],
                                   printed = [TestFail, ErrorExecuting]\<rparr>, Exited 1)
                     | Inr rows \<Rightarrow>
                         (case (if rows \<noteq> [] then sink ''table_row_differences.csv'' rows
                                else Inr ()) of
                            Inl e \<Rightarrow> (\<lparr>issued = issued s5 @ [q1, q2, qe],
                                        printed = [TestFail, ErrorExecuting]\<rparr>, Exited 1)
                          | Inr u \<Rightarrow> (\<lparr>issued = issued s5 @ [q1, q2, qe],
                                        printed = [TestFail]\<rparr>, Returned)))))"
    if "truthy_val has_differences"
    using that body assms(1,2)
    by (simp add: execute_comparison_def print_io_def s5 bind_io_def
        get_sample_differences_def export_all_differences_def export_query_def
        write_csv_def lift_io_def client_query_def return_io_def assms(12,13,14) Let_def
        split: sum.splits)
  have lim: "\<exists>body. build_except_distinct_query a b cols w ob (Some 10) None =
      body @ '' LIMIT 10''" for a b
    using build_with_limit[of "Some 10" a b cols w ob None]
    by (simp add: limit_part_def str_of_int_def str_of_nat.simps digit_char_def char_of_def
        bit_Suc_0_iff)
  from s5 pass fail lim[of t1f t2f] lim[of t2f t1f] assms(12,13) show ?thesis by blast
qed

theorem differences_gate_samples_and_export_witness:
  "execute_comparison
     (scripted_client
        [Inr [[(''column_name'', VStr ''a''), (''data_type'', VStr ''INT'')]],
         Inr [[(''column_name'', VStr ''a''), (''data_type'', VStr ''INT'')]],
         Inr [[(''count'', VInt 1)]], Inr [[(''count'', VInt 1)]],
         Inr [[(''has_differences'', VBool True)]], Inr [], Inr [],
         Inr [[(''a'', VInt 1), (''source_table'', VStr ''exclusive_to_t1'')]]])
     (\<lambda>f rows. if f = ''table_row_differences.csv'' then Inr () else Inl OSError)
     ''p.d.t1'' ''p.d.t2'' ''p'' ''d'' ''t1'' ''p'' ''d'' ''t2'' None None None =
   (\<lparr>issued = [schema_query ''p'' ''d'' ''t1'', schema_query ''p'' ''d'' ''t2'',
               build_row_count_query ''p.d.t1'' None, build_row_count_query ''p.d.t2'' None,
               exists_query ''p.d.t1'' ''p.d.t2'' ''a'' None,
               build_except_distinct_query ''p.d.t1'' ''p.d.t2'' ''a'' None None (Some 10) None,
               build_except_distinct_query ''p.d.t2'' ''p.d.t1'' ''a'' None None (Some 10) None,
               build_union_query
                 [build_except_distinct_query ''p.d.t1'' ''p.d.t2'' ''a'' None None None
                    (Some ''exclusive_to_t1''),
                  build_except_distinct_query ''p.d.t2'' ''p.d.t1'' ''a'' None None None
                    (Some ''exclusive_to_t2'')] None],
     printed = [TestFail]\<rparr>, Returned) \<and>
   execute_comparison
     (scripted_client
        [Inr [[(''column_name'', VStr ''a''), (''data_type'', VStr ''INT'')]],
         Inr [[(''column_name'', VStr ''a''), (''data_type'', VStr ''INT'')]],
         Inr [[(''count'', VInt 1)]], Inr [[(''count'', VInt 1)]],
         Inr [[(''has_differences'', VBool True)]], Inr [], Inr [],
         Inr [[(''a'', VInt 1), (''source_table'', VStr ''exclusive_to_t1'')]]])
     (\<lambda>f rows. Inl OSError)
     ''p.d.t1'' ''p.d.t2'' ''p'' ''d'' ''t1'' ''p'' ''d'' ''t2'' None None None =
   (\<lparr>issued = [schema_query ''p'' ''d'' ''t1'', schema_query ''p'' ''d'' ''t2'',
               build_row_count_query ''p.d.t1'' None, build_row_count_query ''p.d.t2'' None,
               exists_query ''p.d.t1'' ''p.d.t2'' ''a'' None,
               build_except_distinct_query ''p.d.t1'' ''p.d.t2'' ''a'' None None (Some 10) None,
               build_except_distinct_query ''p.d.t2'' ''p.d.t1'' ''a'' None None (Some 10) None,
               build_union_query
                 [build_except_distinct_query ''p.d.t1'' ''p.d.t2'' ''a'' None None None
                    (Some ''exclusive_to_t1''),
                  build_except_distinct_query ''p.d.t2'' ''p.d.t1'' ''a'' None None None
                    (Some ''exclusive_to_t2'')] None],
     printed = [TestFail, ErrorExecuting]\<rparr>, Exited 1) \<and>
   execute_comparison
     (scripted_client
        [Inr [[(''column_name'', VStr ''a''), (''data_type'', VStr ''INT'')]],
         Inr [[(''column_name'', VStr ''a''), (''data_type'', VStr ''INT'')]],
         Inr [[(''count'', VInt 1)]], Inr [[(''count'', VInt 1)]],
         Inr [[(''has_differences'', VBool False)]]])
     (\<lambda>f rows. Inl OSError)
     ''p.d.t1'' ''p.d.t2'' ''p'' ''d'' ''t1'' ''p'' ''d'' ''t2'' None None None =
   (\<lparr>issued = [schema_query ''p'' ''d'' ''t1'', schema_query ''p'' ''d'' ''t2'',
               build_row_count_query ''p.d.t1'' None, build_row_count_query ''p.d.t2'' None,
               exists_query ''p.d.t1'' ''p.d.t2'' ''a'' None],
     printed = [TestPass]\<rparr>, Returned)"
proof -
  let ?schema = "Inr [[(''column_name'', VStr ''a''), (''data_type'', VStr ''INT'')]]
                   :: error + row list"
  let ?count = "Inr [[(''count'', VInt 1)]] :: error + row list"
  let ?w = "normalize_where_clause None"
  let ?cols = "build_column_list None
                 (Some (common_columns (analyze_schemas [(''a'', ''INT'')] [(''a'', ''INT'')] None)))"
  let ?s0 = "\<lparr>issued = [], printed = []\<rparr>"
  let ?s1 = "?s0\<lparr>issued := issued ?s0 @ [schema_query ''p'' ''d'' ''t1'']\<rparr>"
  let ?s2 = "?s1\<lparr>issued := issued ?s1 @ [schema_query ''p'' ''d'' ''t2'']\<rparr>"
  let ?s3 = "?s2\<lparr>issued := issued ?s2 @ [build_row_count_query ''p.d.t1'' ?w]\<rparr>"
  let ?s4 = "?s3\<lparr>issued := issued ?s3 @ [build_row_count_query ''p.d.t2'' ?w]\<rparr>"
  let ?s5 = "?s4\<lparr>issued := issued ?s4 @ [exists_query ''p.d.t1'' ''p.d.t2'' ?cols ?w]\<rparr>"
  have common: "common_columns (analyze_schemas [(''a'', ''INT'')] [(''a'', ''INT'')] None) \<noteq> {}"
    by (simp add: analyze_schemas_def)
  have fmt: "format_count (VInt 1) ?s4 = (Inr (), ?s4)"
    by (simp add: format_count_def lift_io_def)
  have w: "?w = None" by (simp add: normalize_where_clause_def)
  have ob: "normalize_order_by_clause None = None"
    by (simp add: normalize_order_by_clause_def)
  have cols: "?cols = ''a''"
    by (simp add: analyze_schemas_def build_column_list_def)
  {
    fix flag :: bool and tail :: "(error + row list) list" and sink :: sink
    let ?c = "scripted_client
                (?schema # ?schema # ?count # ?count # Inr [[(''has_differences'', VBool flag)]] # tail)"
    have h3: "get_table_schema ?c ''p'' ''d'' ''t1'' ?s0 = (Inr [(''a'', ''INT'')], ?s1)"
      by (rule scripted_schema) simp_all
    have h4: "get_table_schema ?c ''p'' ''d'' ''t2'' ?s1 = (Inr [(''a'', ''INT'')], ?s2)"
      by (rule scripted_schema) simp_all
    have h6: "get_row_count ?c ''p.d.t1'' ?w ?s2 = (Inr (VInt 1), ?s3)"
      by (rule scripted_count) simp_all
    have h7: "get_row_count ?c ''p.d.t2'' ?w ?s3 = (Inr (VInt 1), ?s4)"
      by (rule scripted_count) simp_all
    have h11: "check_data_differences ?c ''p.d.t1'' ''p.d.t2'' ?cols ?w ?s4 =
                 (Inr (VBool flag), ?s5)"
      by (rule scripted_check) simp_all
    note differences_gate_samples_and_export
      [OF refl refl h3 h4 common h6 h7 fmt fmt refl h11 refl refl refl,
        where oc = None and sink = sink]
  }
  note run = this
  from run[of True "[Inr [], Inr [], Inr [[(''a'', VInt 1), (''source_table'', VStr ''exclusive_to_t1'')]]]"
        "\<lambda>f rows. if f = ''table_row_differences.csv'' then Inr () else Inl OSError"]
    run[of True "[Inr [], Inr [], Inr [[(''a'', VInt 1), (''source_table'', VStr ''exclusive_to_t1'')]]]"
        "\<lambda>f rows. Inl OSError"]
    run[of False "[]" "\<lambda>f rows. Inl OSError"] w ob cols
  show ?thesis by (simp add: scripted_client_def)
qed

end
